theory Spec2Isabelle
  imports Main "HOL-Library.AList"
begin

section \<open>JSON documents and the Python operations applied to them\<close>

text \<open>
  The module \<^verbatim>\<open>apps/search/src/search/models.py\<close> stores every configuration as JSON
  text, decodes it with \<^verbatim>\<open>json.loads\<close> and then works on the decoded, dynamically
  typed value. The decoded values are modelled by the datatype \<open>json\<close>. A Python
  \<^verbatim>\<open>dict\<close> is an association list: the order of the list is the order in which
  Python iterates over the dictionary, a lookup takes the first entry of a key, and an
  assignment replaces the entry of an existing key where it stands or appends a new one.
  Numbers are integers; JSON floating point numbers are outside the model.
\<close>

datatype json =
    JNull
  | JBool bool
  | JInt int
  | JStr string
  | JList "json list"
  | JObj "(string \<times> json) list"

text \<open>
  Every exception the module can raise is a value. \<open>KeyError\<close> carries the missing key,
  as Python's does; \<open>ValueError\<close> is what \<^verbatim>\<open>json.loads\<close> raises on malformed text.
\<close>

datatype error = KeyError json | TypeError | AttributeError | IndexError | ValueError

definition bindE :: "error + 'a \<Rightarrow> ('a \<Rightarrow> error + 'b) \<Rightarrow> error + 'b" where
  "bindE m f = (case m of Inl e \<Rightarrow> Inl e | Inr v \<Rightarrow> f v)"

text \<open>A list comprehension or loop body that may raise: the first exception ends it.\<close>

fun mapE :: "('a \<Rightarrow> error + 'b) \<Rightarrow> 'a list \<Rightarrow> error + 'b list" where
  "mapE f [] = Inr []"
| "mapE f (x # xs) = bindE (f x) (\<lambda>y. bindE (mapE f xs) (\<lambda>ys. Inr (y # ys)))"

text \<open>Truth value testing (\<^verbatim>\<open>if x:\<close>, \<^verbatim>\<open>x and y\<close>, \<^verbatim>\<open>x or y\<close>).\<close>

fun py_truthy :: "json \<Rightarrow> bool" where
  "py_truthy JNull = False"
| "py_truthy (JBool b) = b"
| "py_truthy (JInt i) = (i \<noteq> 0)"
| "py_truthy (JStr s) = (s \<noteq> [])"
| "py_truthy (JList xs) = (xs \<noteq> [])"
| "py_truthy (JObj kvs) = (kvs \<noteq> [])"

definition py_and :: "json \<Rightarrow> json \<Rightarrow> json" where
  "py_and a b = (if py_truthy a then b else a)"

definition py_or :: "json \<Rightarrow> json \<Rightarrow> json" where
  "py_or a b = (if py_truthy a then a else b)"

text \<open>
  Python's \<^verbatim>\<open>==\<close> on decoded JSON: \<^verbatim>\<open>True == 1\<close> and \<^verbatim>\<open>False == 0\<close> hold, lists are
  compared element by element, dictionaries by size and then key by key whatever their
  order.
\<close>

primrec py_eq :: "json \<Rightarrow> json \<Rightarrow> bool" where
  "py_eq JNull = (\<lambda>y. y = JNull)"
| "py_eq (JBool a) = (\<lambda>y. y = JBool a \<or> y = JInt (if a then 1 else 0))"
| "py_eq (JInt i) = (\<lambda>y. y = JInt i \<or> (i = 1 \<and> y = JBool True) \<or> (i = 0 \<and> y = JBool False))"
| "py_eq (JStr s) = (\<lambda>y. y = JStr s)"
| "py_eq (JList xs) = (\<lambda>y. case y of
       JList ys \<Rightarrow> list_all2 (\<lambda>f z. f z) (map py_eq xs) ys
     | _ \<Rightarrow> False)"
| "py_eq (JObj kvs) = (\<lambda>y. case y of
       JObj b \<Rightarrow> length kvs = length b \<and>
         list_all (\<lambda>(k, f). case map_of b k of None \<Rightarrow> False | Some w \<Rightarrow> f w)
           (map (map_prod id py_eq) kvs)
     | _ \<Rightarrow> False)"

text \<open>Lists and dictionaries are unhashable: using one as a dictionary key is a TypeError.\<close>

fun hashable :: "json \<Rightarrow> bool" where
  "hashable (JList xs) = False"
| "hashable (JObj kvs) = False"
| "hashable v = True"

text \<open>Sequence indexing \<^verbatim>\<open>xs[i]\<close>: a negative index counts from the end.\<close>

definition list_index :: "'a list \<Rightarrow> int \<Rightarrow> error + 'a" where
  "list_index xs i =
     (if 0 \<le> i \<and> i < int (length xs) then Inr (xs ! nat i)
      else if i < 0 \<and> - i \<le> int (length xs) then Inr (xs ! nat (int (length xs) + i))
      else Inl IndexError)"

text \<open>
  Subscription \<^verbatim>\<open>obj[key]\<close>. The keys of a decoded JSON object are strings, so any other
  hashable key is missing from it. A bool is an integer index of a list or a string.
\<close>

fun py_getitem :: "json \<Rightarrow> json \<Rightarrow> error + json" where
  "py_getitem (JObj kvs) (JStr k) =
     (case map_of kvs k of None \<Rightarrow> Inl (KeyError (JStr k)) | Some v \<Rightarrow> Inr v)"
| "py_getitem (JObj kvs) key = (if hashable key then Inl (KeyError key) else Inl TypeError)"
| "py_getitem (JList xs) (JInt i) = list_index xs i"
| "py_getitem (JList xs) (JBool b) = list_index xs (if b then 1 else 0)"
| "py_getitem (JStr s) (JInt i) = map_sum id (\<lambda>c. JStr [c]) (list_index s i)"
| "py_getitem (JStr s) (JBool b) = map_sum id (\<lambda>c. JStr [c]) (list_index s (if b then 1 else 0))"
| "py_getitem obj key = Inl TypeError"

text \<open>\<^verbatim>\<open>obj[k1][k2]...\<close>, evaluated from the left.\<close>

fun py_path :: "json \<Rightarrow> json list \<Rightarrow> error + json" where
  "py_path obj [] = Inr obj"
| "py_path obj (k # ks) = bindE (py_getitem obj k) (\<lambda>v. py_path v ks)"

text \<open>\<^verbatim>\<open>obj.get(key, default)\<close>: only a dictionary has the method.\<close>

fun py_get :: "json \<Rightarrow> string \<Rightarrow> json \<Rightarrow> error + json" where
  "py_get (JObj kvs) k dflt = Inr (case map_of kvs k of None \<Rightarrow> dflt | Some v \<Rightarrow> v)"
| "py_get obj k dflt = Inl AttributeError"

text \<open>\<^verbatim>\<open>obj[key] = value\<close> with a string key.\<close>

fun py_setitem :: "json \<Rightarrow> string \<Rightarrow> json \<Rightarrow> error + json" where
  "py_setitem (JObj kvs) k v = Inr (JObj (AList.update k v kvs))"
| "py_setitem obj k v = Inl TypeError"

text \<open>
  \<^verbatim>\<open>for x in obj\<close>: a list yields its elements, a dictionary its keys, a string its
  characters; nothing else is iterable.
\<close>

fun py_iter :: "json \<Rightarrow> error + json list" where
  "py_iter (JList xs) = Inr xs"
| "py_iter (JObj kvs) = Inr (map (\<lambda>kv. JStr (fst kv)) kvs)"
| "py_iter (JStr s) = Inr (map (\<lambda>c. JStr [c]) s)"
| "py_iter obj = Inl TypeError"

text \<open>
  The conversion \<^verbatim>\<open>%s\<close> of string formatting. A string is inserted as it is, an integer
  in decimal, and \<^verbatim>\<open>True\<close>, \<^verbatim>\<open>False\<close>, \<^verbatim>\<open>None\<close> by name. For a list or a dictionary
  \<^verbatim>\<open>%s\<close> gives Python's \<^verbatim>\<open>repr\<close>, a built-in that is not code of this repository: it
  is the parameter \<open>repr\<close>.
\<close>

fun digits :: "nat \<Rightarrow> string" where
  "digits n =
     (if n < 10 then [''0123456789'' ! n]
      else digits (n div 10) @ [''0123456789'' ! (n mod 10)])"

declare digits.simps [simp del]

definition str_int :: "int \<Rightarrow> string" where
  "str_int i = (if i < 0 then CHR ''-'' # digits (nat (- i)) else digits (nat i))"

fun py_str :: "(json \<Rightarrow> string) \<Rightarrow> json \<Rightarrow> string" where
  "py_str repr (JStr s) = s"
| "py_str repr (JInt i) = str_int i"
| "py_str repr (JBool b) = (if b then ''True'' else ''False'')"
| "py_str repr JNull = ''None''"
| "py_str repr v = repr v"

text \<open>\<^verbatim>\<open>sep.join(xs)\<close>.\<close>

fun join :: "string \<Rightarrow> string list \<Rightarrow> string" where
  "join sep [] = []"
| "join sep [x] = x"
| "join sep (x # y # ys) = x @ sep @ join sep (y # ys)"

text \<open>
  Query parameters are a tuple of pairs \<^verbatim>\<open>(name, value)\<close>; a value is whatever the
  configuration holds (\<^verbatim>\<open>facet.limit\<close> is a number, or \<^verbatim>\<open>None\<close> when absent).
\<close>

type_synonym params = "(string \<times> json) list"

section \<open>Sorting.get_query_params\<close>

text \<open>
  \<^verbatim>\<open>
  def get_query_params(self):
    data_dict = json.loads(self.data)
    params = ()
    if data_dict.get('properties', {}).get('is_enabled') and 'true' or 'false':
      if data_dict.get('fields'):
        fields = ['%s %s' % (field['field'], field['asc'] and 'asc' or 'desc')
                  for field in data_dict.get('fields')]
        params += (('sort', ','.join(fields)),)
    return params
  \<close>
  \<^verbatim>\<open>json.loads\<close> is the parameter \<open>loads\<close>.
\<close>

definition sort_term :: "(json \<Rightarrow> string) \<Rightarrow> json \<Rightarrow> error + string" where
  "sort_term repr field =
     bindE (py_getitem field (JStr ''field'')) (\<lambda>name.
     bindE (py_getitem field (JStr ''asc'')) (\<lambda>asc.
       Inr (py_str repr name @ '' '' @
            py_str repr (py_or (py_and asc (JStr ''asc'')) (JStr ''desc'')))))"

definition Sorting_get_query_params ::
  "(string \<Rightarrow> error + json) \<Rightarrow> (json \<Rightarrow> string) \<Rightarrow> string \<Rightarrow> error + params" where
  "Sorting_get_query_params loads repr self_data =
     bindE (loads self_data) (\<lambda>data_dict.
     bindE (py_get data_dict ''properties'' (JObj [])) (\<lambda>properties.
     bindE (py_get properties ''is_enabled'' JNull) (\<lambda>is_enabled.
       if py_truthy (py_or (py_and is_enabled (JStr ''true'')) (JStr ''false'')) then
         bindE (py_get data_dict ''fields'' JNull) (\<lambda>fields.
           if py_truthy fields then
             bindE (py_iter fields) (\<lambda>items.
             bindE (mapE (sort_term repr) items) (\<lambda>terms.
               Inr [(''sort'', JStr (join '','' terms))]))
           else Inr [])
       else Inr [])))"

section \<open>Facet.get_query_params\<close>

text \<open>
  \<^verbatim>\<open>
  def get_query_params(self):
    data_dict = json.loads(self.data)
    properties = data_dict.get('properties')
    params = (
        ('facet', properties.get('isEnabled') and 'true' or 'false'),
        ('facet.limit', properties.get('limit')),
        ('facet.mincount', properties.get('mincount')),
        ('facet.sort', properties.get('sort')),
    )
    if data_dict.get('fields'):
      field_facets = tuple([('facet.field', field_facet['field'])
                            for field_facet in data_dict['fields']])
      params += field_facets
    if data_dict.get('ranges'):
      for field_facet in data_dict['ranges']:
        range_facets = tuple([
            ('facet.range', field_facet['field']),
            ('f.%s.facet.range.start' % field_facet['field'], field_facet['start']),
            ('f.%s.facet.range.end' % field_facet['field'], field_facet['end']),
            ('f.%s.facet.range.gap' % field_facet['field'], field_facet['gap']),])
        params += range_facets
    if data_dict.get('dates'):
      for field_facet in data_dict['dates']:
        start = field_facet['start']
        end = field_facet['end']
        gap = field_facet['gap']
        date_facets = tuple([
            ('facet.date', field_facet['field']),
            ('f.%s.facet.date.start' % field_facet['field'],
             'NOW-%(frequency)s%(unit)s/%(rounder)s' %
               {"frequency": start["frequency"], "unit": start["unit"], "rounder": gap["unit"]}),
            ('f.%s.facet.date.end' % field_facet['field'], 'NOW-%(frequency)s%(unit)s' % end),
            ('f.%s.facet.date.gap' % field_facet['field'], '+%(frequency)s%(unit)s' % gap),])
        params += date_facets
    return params
  \<close>
  An entry's \<^verbatim>\<open>field_facet['field']\<close> is read several times in one tuple; the entry
  does not change in between, so the model reads it once, at the place of the first
  read. A format with named conversions (\<^verbatim>\<open>'%(unit)s' % end\<close>) needs a dictionary on
  its right and a value for each name: a TypeError or a KeyError otherwise, which is
  what \<open>py_getitem\<close> with the name as key gives.
\<close>

definition field_facet_param :: "json \<Rightarrow> error + string \<times> json" where
  "field_facet_param field_facet =
     bindE (py_getitem field_facet (JStr ''field'')) (\<lambda>name. Inr (''facet.field'', name))"

definition range_facets :: "(json \<Rightarrow> string) \<Rightarrow> json \<Rightarrow> error + params" where
  "range_facets repr field_facet =
     bindE (py_getitem field_facet (JStr ''field'')) (\<lambda>name.
     bindE (py_getitem field_facet (JStr ''start'')) (\<lambda>start.
     bindE (py_getitem field_facet (JStr ''end'')) (\<lambda>end'.
     bindE (py_getitem field_facet (JStr ''gap'')) (\<lambda>gap.
       Inr [(''facet.range'', name),
            (''f.'' @ py_str repr name @ ''.facet.range.start'', start),
            (''f.'' @ py_str repr name @ ''.facet.range.end'', end'),
            (''f.'' @ py_str repr name @ ''.facet.range.gap'', gap)]))))"

definition date_facets :: "(json \<Rightarrow> string) \<Rightarrow> json \<Rightarrow> error + params" where
  "date_facets repr field_facet =
     bindE (py_getitem field_facet (JStr ''start'')) (\<lambda>start.
     bindE (py_getitem field_facet (JStr ''end'')) (\<lambda>end'.
     bindE (py_getitem field_facet (JStr ''gap'')) (\<lambda>gap.
     bindE (py_getitem field_facet (JStr ''field'')) (\<lambda>name.
     bindE (py_getitem start (JStr ''frequency'')) (\<lambda>start_frequency.
     bindE (py_getitem start (JStr ''unit'')) (\<lambda>start_unit.
     bindE (py_getitem gap (JStr ''unit'')) (\<lambda>rounder.
     bindE (py_getitem end' (JStr ''frequency'')) (\<lambda>end_frequency.
     bindE (py_getitem end' (JStr ''unit'')) (\<lambda>end_unit.
     bindE (py_getitem gap (JStr ''frequency'')) (\<lambda>gap_frequency.
     bindE (py_getitem gap (JStr ''unit'')) (\<lambda>gap_unit.
       Inr [(''facet.date'', name),
            (''f.'' @ py_str repr name @ ''.facet.date.start'',
             JStr (''NOW-'' @ py_str repr start_frequency @ py_str repr start_unit @
                   ''/'' @ py_str repr rounder)),
            (''f.'' @ py_str repr name @ ''.facet.date.end'',
             JStr (''NOW-'' @ py_str repr end_frequency @ py_str repr end_unit)),
            (''f.'' @ py_str repr name @ ''.facet.date.gap'',
             JStr (''+'' @ py_str repr gap_frequency @ py_str repr gap_unit))])))))))))))"

text \<open>\<^verbatim>\<open>for field_facet in ...: params += body(field_facet)\<close>.\<close>

fun for_params :: "(json \<Rightarrow> error + params) \<Rightarrow> json list \<Rightarrow> params \<Rightarrow> error + params" where
  "for_params body [] params = Inr params"
| "for_params body (field_facet # rest) params =
     bindE (body field_facet) (\<lambda>more. for_params body rest (params @ more))"

definition fields_section :: "json \<Rightarrow> params \<Rightarrow> error + params" where
  "fields_section data_dict params =
     bindE (py_get data_dict ''fields'' JNull) (\<lambda>fields.
       if py_truthy fields then
         bindE (py_getitem data_dict (JStr ''fields'')) (\<lambda>fields.
         bindE (py_iter fields) (\<lambda>items.
         bindE (mapE field_facet_param items) (\<lambda>field_facets.
           Inr (params @ field_facets))))
       else Inr params)"

definition loop_section ::
  "string \<Rightarrow> (json \<Rightarrow> error + params) \<Rightarrow> json \<Rightarrow> params \<Rightarrow> error + params" where
  "loop_section key body data_dict params =
     bindE (py_get data_dict key JNull) (\<lambda>entries.
       if py_truthy entries then
         bindE (py_getitem data_dict (JStr key)) (\<lambda>entries.
         bindE (py_iter entries) (\<lambda>items. for_params body items params))
       else Inr params)"

definition Facet_get_query_params ::
  "(string \<Rightarrow> error + json) \<Rightarrow> (json \<Rightarrow> string) \<Rightarrow> string \<Rightarrow> error + params" where
  "Facet_get_query_params loads repr self_data =
     bindE (loads self_data) (\<lambda>data_dict.
     bindE (py_get data_dict ''properties'' JNull) (\<lambda>properties.
     bindE (py_get properties ''isEnabled'' JNull) (\<lambda>is_enabled.
     bindE (py_get properties ''limit'' JNull) (\<lambda>limit.
     bindE (py_get properties ''mincount'' JNull) (\<lambda>mincount.
     bindE (py_get properties ''sort'' JNull) (\<lambda>sort.
     bindE (fields_section data_dict
              [(''facet'', py_or (py_and is_enabled (JStr ''true'')) (JStr ''false'')),
               (''facet.limit'', limit),
               (''facet.mincount'', mincount),
               (''facet.sort'', sort)]) (\<lambda>params.
     bindE (loop_section ''ranges'' (range_facets repr) data_dict params) (\<lambda>params.
     loop_section ''dates'' (date_facets repr) data_dict params))))))))"

section \<open>get_facet_field_label and get_facet_field_uuid\<close>

text \<open>
  \<^verbatim>\<open>
  def get_facet_field_label(field, type, facets):
    label = field
    if type == 'field':
      for fld in facets['fields']:
        if fld['field'] == field:
          label = fld['label']
    elif type == 'range':
      for fld in facets['ranges']:
        if fld['field'] == field:
          label = fld['label']
    elif type == 'date':
      for fld in facets['dates']:
        if fld['field'] == field:
          label = fld['label']
    return label
  \<close>
  \<^verbatim>\<open>get_facet_field_uuid\<close> is the same text with \<^verbatim>\<open>uuid = ''\<close> for \<^verbatim>\<open>label = field\<close> and
  \<^verbatim>\<open>fld['uuid']\<close> for \<^verbatim>\<open>fld['label']\<close>. The loop is \<open>scan\<close>: \<open>attr\<close> is the key read
  from a matching entry and \<open>found\<close> the value of the variable so far.
\<close>

fun scan :: "string \<Rightarrow> json \<Rightarrow> json list \<Rightarrow> json \<Rightarrow> error + json" where
  "scan attr field [] found = Inr found"
| "scan attr field (fld # flds) found =
     bindE (py_getitem fld (JStr ''field'')) (\<lambda>name.
       if py_eq name field then
         bindE (py_getitem fld (JStr attr)) (\<lambda>v. scan attr field flds v)
       else scan attr field flds found)"

definition scan_facets :: "string \<Rightarrow> json \<Rightarrow> string \<Rightarrow> json \<Rightarrow> json \<Rightarrow> error + json" where
  "scan_facets attr field typ facets found =
     (if typ = ''field'' then
        bindE (py_getitem facets (JStr ''fields'')) (\<lambda>entries.
        bindE (py_iter entries) (\<lambda>flds. scan attr field flds found))
      else if typ = ''range'' then
        bindE (py_getitem facets (JStr ''ranges'')) (\<lambda>entries.
        bindE (py_iter entries) (\<lambda>flds. scan attr field flds found))
      else if typ = ''date'' then
        bindE (py_getitem facets (JStr ''dates'')) (\<lambda>entries.
        bindE (py_iter entries) (\<lambda>flds. scan attr field flds found))
      else Inr found)"

definition get_facet_field_label :: "json \<Rightarrow> string \<Rightarrow> json \<Rightarrow> error + json" where
  "get_facet_field_label field typ facets = scan_facets ''label'' field typ facets field"

definition get_facet_field_uuid :: "json \<Rightarrow> string \<Rightarrow> json \<Rightarrow> error + json" where
  "get_facet_field_uuid field typ facets = scan_facets ''uuid'' field typ facets (JStr '''')"

section \<open>augment_solr_response\<close>

text \<open>
  \<^verbatim>\<open>
  def augment_solr_response(response, facets):
    augmented = response
    augmented['normalized_facets'] = []
    normalized_facets = {}
    default_facets = []
    if response and response.get('facet_counts'):
      if response['facet_counts']['facet_fields']:
        for cat in response['facet_counts']['facet_fields']:
          facet = {
            'field': cat,
            'type': 'field',
            'label': get_facet_field_label(cat, 'field', facets),
            'counts': response['facet_counts']['facet_fields'][cat],
          }
          uuid = get_facet_field_uuid(cat, 'field', facets)
          if uuid == '':
            default_facets.append(facet)
          else:
            normalized_facets[uuid] = facet
      if response['facet_counts']['facet_ranges']:
        for cat in response['facet_counts']['facet_ranges']:
          facet = {
            'field': cat,
            'type': 'range',
            'label': get_facet_field_label(cat, 'range', facets),
            'counts': response['facet_counts']['facet_ranges'][cat]['counts'],
            'start': response['facet_counts']['facet_ranges'][cat]['start'],
            'end': response['facet_counts']['facet_ranges'][cat]['end'],
            'gap': response['facet_counts']['facet_ranges'][cat]['gap'],
          }
          uuid = get_facet_field_uuid(cat, 'range', facets)
          (the same if/else)
      if response['facet_counts']['facet_dates']:
        for cat in response['facet_counts']['facet_dates']:
          facet = {
            'field': cat,
            'type': 'date',
            'label': get_facet_field_label(cat, 'date', facets),
            'start': response['facet_counts']['facet_dates'][cat]['start'],
            'end': response['facet_counts']['facet_dates'][cat]['end'],
            'gap': response['facet_counts']['facet_dates'][cat]['gap'],
          }
          counts = []
          for date, count in response['facet_counts']['facet_dates'][cat].iteritems():
            if date not in ('start', 'end', 'gap'):
              counts.append(date)
              counts.append(count)
          facet['counts'] = counts
          uuid = get_facet_field_uuid(cat, 'date', facets)
          (the same if/else)
    for ordered_uuid in facets.get('order', []):
      try:
        augmented['normalized_facets'].append(normalized_facets[ordered_uuid])
      except:
        pass
    if default_facets:
      augmented['normalized_facets'].extend(default_facets)
    return augmented
  \<close>
\<close>

text \<open>
  The local \<^verbatim>\<open>normalized_facets\<close> is a dictionary keyed by uuid, and a uuid is whatever
  the configuration holds: the keys are \<open>json\<close> values, compared as Python compares
  keys (\<open>py_eq\<close>). An assignment to a key that is there keeps the stored key and
  replaces its value.
\<close>

fun dict_update :: "json \<Rightarrow> json \<Rightarrow> (json \<times> json) list \<Rightarrow> (json \<times> json) list" where
  "dict_update k v [] = [(k, v)]"
| "dict_update k v (e # es) =
     (if py_eq (fst e) k then (fst e, v) # es else e # dict_update k v es)"

definition dict_setitem ::
  "(json \<times> json) list \<Rightarrow> json \<Rightarrow> json \<Rightarrow> error + (json \<times> json) list" where
  "dict_setitem d k v = (if hashable k then Inr (dict_update k v d) else Inl TypeError)"

fun dict_find :: "json \<Rightarrow> (json \<times> json) list \<Rightarrow> json option" where
  "dict_find k [] = None"
| "dict_find k (e # es) = (if py_eq (fst e) k then Some (snd e) else dict_find k es)"

definition dict_getitem :: "(json \<times> json) list \<Rightarrow> json \<Rightarrow> error + json" where
  "dict_getitem d k =
     (if hashable k then
        (case dict_find k d of None \<Rightarrow> Inl (KeyError k) | Some v \<Rightarrow> Inr v)
      else Inl TypeError)"

text \<open>\<^verbatim>\<open>obj.iteritems()\<close>: only a dictionary has the method.\<close>

fun py_iteritems :: "json \<Rightarrow> error + (string \<times> json) list" where
  "py_iteritems (JObj kvs) = Inr kvs"
| "py_iteritems obj = Inl AttributeError"

text \<open>
  The body of each of the three loops up to the computation of \<^verbatim>\<open>uuid\<close>: it gives the
  uuid and the record \<^verbatim>\<open>facet\<close>. The values of a dictionary display are evaluated in
  the order they are written. The keys of a record are listed as the source writes
  them; nothing in this module observes their order.
\<close>

definition field_record :: "json \<Rightarrow> json \<Rightarrow> json \<Rightarrow> error + json \<times> json" where
  "field_record response facets cat =
     bindE (get_facet_field_label cat ''field'' facets) (\<lambda>label.
     bindE (py_path response [JStr ''facet_counts'', JStr ''facet_fields'', cat]) (\<lambda>counts.
     bindE (get_facet_field_uuid cat ''field'' facets) (\<lambda>uuid.
       Inr (uuid, JObj [(''field'', cat), (''type'', JStr ''field''), (''label'', label),
                        (''counts'', counts)]))))"

definition range_record :: "json \<Rightarrow> json \<Rightarrow> json \<Rightarrow> error + json \<times> json" where
  "range_record response facets cat =
     bindE (get_facet_field_label cat ''range'' facets) (\<lambda>label.
     bindE (py_path response [JStr ''facet_counts'', JStr ''facet_ranges'', cat, JStr ''counts'']) (\<lambda>counts.
     bindE (py_path response [JStr ''facet_counts'', JStr ''facet_ranges'', cat, JStr ''start'']) (\<lambda>start.
     bindE (py_path response [JStr ''facet_counts'', JStr ''facet_ranges'', cat, JStr ''end'']) (\<lambda>end'.
     bindE (py_path response [JStr ''facet_counts'', JStr ''facet_ranges'', cat, JStr ''gap'']) (\<lambda>gap.
     bindE (get_facet_field_uuid cat ''range'' facets) (\<lambda>uuid.
       Inr (uuid, JObj [(''field'', cat), (''type'', JStr ''range''), (''label'', label),
                        (''counts'', counts), (''start'', start), (''end'', end'),
                        (''gap'', gap)])))))))"

definition date_counts :: "(string \<times> json) list \<Rightarrow> json list" where
  "date_counts items =
     concat (map (\<lambda>(date, count).
       if date \<notin> set [''start'', ''end'', ''gap''] then [JStr date, count] else []) items)"

definition date_record :: "json \<Rightarrow> json \<Rightarrow> json \<Rightarrow> error + json \<times> json" where
  "date_record response facets cat =
     bindE (get_facet_field_label cat ''date'' facets) (\<lambda>label.
     bindE (py_path response [JStr ''facet_counts'', JStr ''facet_dates'', cat, JStr ''start'']) (\<lambda>start.
     bindE (py_path response [JStr ''facet_counts'', JStr ''facet_dates'', cat, JStr ''end'']) (\<lambda>end'.
     bindE (py_path response [JStr ''facet_counts'', JStr ''facet_dates'', cat, JStr ''gap'']) (\<lambda>gap.
     bindE (py_path response [JStr ''facet_counts'', JStr ''facet_dates'', cat]) (\<lambda>buckets.
     bindE (py_iteritems buckets) (\<lambda>items.
     bindE (get_facet_field_uuid cat ''date'' facets) (\<lambda>uuid.
       Inr (uuid, JObj [(''field'', cat), (''type'', JStr ''date''), (''label'', label),
                        (''start'', start), (''end'', end'), (''gap'', gap),
                        (''counts'', JList (date_counts items))]))))))))"

text \<open>
  The end of each loop body: the record goes to \<^verbatim>\<open>default_facets\<close> when its uuid is the
  empty string, and under its uuid in \<^verbatim>\<open>normalized_facets\<close> otherwise. The state of the
  loops is the pair of the two.
\<close>

type_synonym collected = "(json \<times> json) list \<times> json list"

definition place :: "json \<Rightarrow> json \<Rightarrow> collected \<Rightarrow> error + collected" where
  "place uuid facet st =
     (if py_eq uuid (JStr '''') then Inr (fst st, snd st @ [facet])
      else bindE (dict_setitem (fst st) uuid facet) (\<lambda>normalized_facets.
             Inr (normalized_facets, snd st)))"

fun for_cats ::
  "('a \<Rightarrow> error + json \<times> json) \<Rightarrow> 'a list \<Rightarrow> collected \<Rightarrow> error + collected" where
  "for_cats body [] st = Inr st"
| "for_cats body (cat # cats) st =
     bindE (body cat) (\<lambda>r. bindE (place (fst r) (snd r) st) (\<lambda>st'. for_cats body cats st'))"

text \<open>
  One category: \<^verbatim>\<open>if response['facet_counts'][key]: for cat in response['facet_counts'][key]\<close>.
  The two reads give the same value; the model reads once.
\<close>

definition category ::
  "json \<Rightarrow> string \<Rightarrow> (json \<Rightarrow> error + json \<times> json) \<Rightarrow> collected \<Rightarrow> error + collected" where
  "category response key body st =
     bindE (py_path response [JStr ''facet_counts'', JStr key]) (\<lambda>cats.
       if py_truthy cats then bindE (py_iter cats) (\<lambda>items. for_cats body items st)
       else Inr st)"

definition collect :: "json \<Rightarrow> json \<Rightarrow> error + collected" where
  "collect response facets =
     (if py_truthy response then
        bindE (py_get response ''facet_counts'' JNull) (\<lambda>facet_counts.
          if py_truthy facet_counts then
            bindE (category response ''facet_fields'' (field_record response facets) ([], [])) (\<lambda>st.
            bindE (category response ''facet_ranges'' (range_record response facets) st) (\<lambda>st.
            category response ''facet_dates'' (date_record response facets) st))
          else Inr ([], []))
      else Inr ([], []))"

text \<open>The last loop: any exception of the lookup is swallowed by \<^verbatim>\<open>except: pass\<close>.\<close>

fun append_ordered :: "(json \<times> json) list \<Rightarrow> json list \<Rightarrow> json list \<Rightarrow> json list" where
  "append_ordered normalized_facets [] out = out"
| "append_ordered normalized_facets (ordered_uuid # rest) out =
     (case dict_getitem normalized_facets ordered_uuid of
        Inr facet \<Rightarrow> append_ordered normalized_facets rest (out @ [facet])
      | Inl e \<Rightarrow> append_ordered normalized_facets rest out)"

text \<open>
  The function changes the object it is given: \<^verbatim>\<open>augmented\<close> is another name of
  \<^verbatim>\<open>response\<close>. The model returns the response object as the call leaves it, and how
  the call ended; when it returned, the value returned is that object. The list under
  \<^verbatim>\<open>normalized_facets\<close> is extended in place by the last loop, which cannot raise once
  it has started: the model writes the finished list under the key.
\<close>

datatype outcome = Returned | Raised error

definition augment_solr_response :: "json \<Rightarrow> json \<Rightarrow> json \<times> outcome" where
  "augment_solr_response response facets =
     (case py_setitem response ''normalized_facets'' (JList []) of
        Inl e \<Rightarrow> (response, Raised e)
      | Inr augmented \<Rightarrow>
          (case bindE (collect augmented facets) (\<lambda>st.
                  bindE (py_get facets ''order'' (JList [])) (\<lambda>order.
                  bindE (py_iter order) (\<lambda>uuids.
                    Inr (let out = append_ordered (fst st) uuids []
                         in if snd st \<noteq> [] then out @ snd st else out)))) of
             Inl e \<Rightarrow> (augmented, Raised e)
           | Inr out \<Rightarrow>
               (case py_setitem augmented ''normalized_facets'' (JList out) of
                  Inl e \<Rightarrow> (augmented, Raised e)
                | Inr final \<Rightarrow> (final, Returned))))"

section \<open>update_from_post\<close>

text \<open>
  \<^verbatim>\<open>
  class Facet(models.Model):
    _ATTRIBUTES = ['properties', 'fields', 'ranges', 'dates', 'order']

    def update_from_post(self, post_data):
      data_dict = json.loads(self.data)
      for attr in Facet._ATTRIBUTES:
        if post_data.get(attr) is not None:
          data_dict[attr] = json.loads(post_data[attr])
      self.data = json.dumps(data_dict)
  \<close>
  \<^verbatim>\<open>Result\<close> and \<^verbatim>\<open>Sorting\<close> have the same method over their own \<^verbatim>\<open>_ATTRIBUTES\<close>. The
  posted data maps a name to the text posted under it, if any. \<^verbatim>\<open>json.loads\<close> and
  \<^verbatim>\<open>json.dumps\<close> are the parameters \<open>loads\<close> and \<open>dumps\<close>. The model gives the new
  value of \<^verbatim>\<open>self.data\<close>; the assignment is the last statement, so an exception leaves
  \<^verbatim>\<open>self.data\<close> as it was.
\<close>

definition Facet_ATTRIBUTES :: "string list" where
  "Facet_ATTRIBUTES = [''properties'', ''fields'', ''ranges'', ''dates'', ''order'']"


definition Sorting_ATTRIBUTES :: "string list" where
  "Sorting_ATTRIBUTES = [''properties'', ''fields'']"

fun merge_post ::
  "(string \<Rightarrow> error + json) \<Rightarrow> (string \<Rightarrow> string option) \<Rightarrow> string list \<Rightarrow> json \<Rightarrow> error + json" where
  "merge_post loads post_data [] data_dict = Inr data_dict"
| "merge_post loads post_data (attr # attrs) data_dict =
     (case post_data attr of
        None \<Rightarrow> merge_post loads post_data attrs data_dict
      | Some posted \<Rightarrow>
          bindE (loads posted) (\<lambda>v.
          bindE (py_setitem data_dict attr v) (\<lambda>data_dict'.
            merge_post loads post_data attrs data_dict')))"

definition update_from_post ::
  "(string \<Rightarrow> error + json) \<Rightarrow> (json \<Rightarrow> string) \<Rightarrow> string list \<Rightarrow>
   string \<Rightarrow> (string \<Rightarrow> string option) \<Rightarrow> error + string" where
  "update_from_post loads dumps attributes self_data post_data =
     bindE (loads self_data) (\<lambda>data_dict.
     bindE (merge_post loads post_data attributes data_dict) (\<lambda>data_dict'.
       Inr (dumps data_dict')))"

definition Facet_update_from_post ::
  "(string \<Rightarrow> error + json) \<Rightarrow> (json \<Rightarrow> string) \<Rightarrow> string \<Rightarrow> (string \<Rightarrow> string option) \<Rightarrow> error + string" where
  "Facet_update_from_post loads dumps = update_from_post loads dumps Facet_ATTRIBUTES"


definition Sorting_update_from_post ::
  "(string \<Rightarrow> error + json) \<Rightarrow> (json \<Rightarrow> string) \<Rightarrow> string \<Rightarrow> (string \<Rightarrow> string option) \<Rightarrow> error + string" where
  "Sorting_update_from_post loads dumps = update_from_post loads dumps Sorting_ATTRIBUTES"

section \<open>The facet configuration as the data model describes it\<close>

text \<open>
  \<open>attr_of\<close> reads a key of a mapping: of a stored document, or of an entry of a
  configuration. The entries of \<open>fields\<close>, \<open>ranges\<close> and \<open>dates\<close> are mappings that
  carry at least \<open>field\<close>, \<open>label\<close> and \<open>uuid\<close>: \<open>facet_entry\<close> says that an entry
  has the three keys.
\<close>

fun attr_of :: "json \<Rightarrow> string \<Rightarrow> json option" where
  "attr_of (JObj kvs) k = map_of kvs k"
| "attr_of obj k = None"

definition facet_entry :: "json \<Rightarrow> bool" where
  "facet_entry e \<longleftrightarrow>
     attr_of e ''field'' \<noteq> None \<and> attr_of e ''label'' \<noteq> None \<and> attr_of e ''uuid'' \<noteq> None"

section \<open>The normalized list as the specification describes it\<close>

text \<open>
  The specification describes the result of \<^verbatim>\<open>augment_solr_response\<close> in two steps.
  First every facet name of the three categories of the raw response gives a record
  with its resolved uuid: \<open>discovered_records\<close> lists them in the order of discovery
  (fields, then ranges, then dates). Then the final list is put together from the
  order list and the records: \<open>keyed_record\<close> is the record kept under a uuid, the last
  one discovered with that uuid among those whose uuid is not the empty string, and
  \<open>spec_normalized_facets\<close> is the list of the kept records of the uuids of the order
  list, followed by the records whose uuid is the empty string.
\<close>

definition category_records ::
  "json \<Rightarrow> string \<Rightarrow> (json \<Rightarrow> error + json \<times> json) \<Rightarrow> error + (json \<times> json) list" where
  "category_records response key body =
     bindE (py_path response [JStr ''facet_counts'', JStr key]) (\<lambda>cats.
       if py_truthy cats then bindE (py_iter cats) (mapE body) else Inr [])"

definition discovered_records :: "json \<Rightarrow> json \<Rightarrow> error + (json \<times> json) list" where
  "discovered_records response facets =
     bindE (py_get response ''facet_counts'' JNull) (\<lambda>facet_counts.
       if py_truthy facet_counts then
         bindE (category_records response ''facet_fields'' (field_record response facets)) (\<lambda>fields.
         bindE (category_records response ''facet_ranges'' (range_record response facets)) (\<lambda>ranges.
         bindE (category_records response ''facet_dates'' (date_record response facets)) (\<lambda>dates.
           Inr (fields @ ranges @ dates))))
       else Inr [])"

definition keyed_record :: "(json \<times> json) list \<Rightarrow> json \<Rightarrow> json option" where
  "keyed_record records uuid =
     (let kept = filter (\<lambda>r. \<not> py_eq (fst r) (JStr '''') \<and> py_eq (fst r) uuid) records
      in if kept = [] then None else Some (snd (last kept)))"

definition spec_normalized_facets :: "json list \<Rightarrow> (json \<times> json) list \<Rightarrow> json list" where
  "spec_normalized_facets uuids records =
     concat (map (\<lambda>uuid. case keyed_record records uuid of None \<Rightarrow> [] | Some facet \<Rightarrow> [facet]) uuids) @
     map snd (filter (\<lambda>r. py_eq (fst r) (JStr '''')) records)"

section \<open>Sequencing of operations that may raise\<close>

lemma bindE_Inr [simp]: "bindE (Inr v) f = f v"
  by (simp add: bindE_def)

lemma bindE_Inl [simp]: "bindE (Inl e) f = Inl e"
  by (simp add: bindE_def)

lemma bindE_eq_Inr: "bindE m f = Inr r \<longleftrightarrow> (\<exists>v. m = Inr v \<and> f v = Inr r)"
  by (cases m) simp_all

section \<open>Sort parameters\<close>

text \<open>The test that is to gate the sort parameter holds whatever the flag is.\<close>

lemma sort_gate_always_true:
  "py_truthy (py_or (py_and is_enabled (JStr ''true'')) (JStr ''false''))"
  by (simp add: py_and_def py_or_def)

text \<open>
  C1. The sort parameter is to be emitted only when \<open>properties.is_enabled\<close> is true and
  \<open>fields\<close> is non-empty. The source tests
  \<^verbatim>\<open>data_dict.get('properties', {}).get('is_enabled') and 'true' or 'false'\<close>, a non-empty
  string whatever the flag is. With sorting disabled and one field \<open>date\<close> (descending)
  the builder still emits \<open>sort=date desc\<close>.
\<close>

theorem Sorting_get_query_params_disabled_emits:
  "Sorting_get_query_params
     (\<lambda>text. Inr (JObj [(''properties'', JObj [(''is_enabled'', JBool False)]),
                        (''fields'', JList [JObj [(''field'', JStr ''date''), (''asc'', JBool False)]])]))
     (\<lambda>v. []) ''''
   = Inr [(''sort'', JStr ''date desc'')]"
  by (simp add: Sorting_get_query_params_def sort_term_def py_and_def py_or_def)

section \<open>Facet parameters: date math\<close>

lemma mapE_eq_Inr: "mapE f xs = Inr ys \<longleftrightarrow> list_all2 (\<lambda>x y. f x = Inr y) xs ys"
proof (induction xs arbitrary: ys)
  case Nil
  then show ?case by auto
next
  case (Cons x xs)
  show ?case
  proof (cases "f x")
    case (Inl e)
    then show ?thesis by (auto simp: list_all2_Cons1)
  next
    case (Inr y)
    then show ?thesis using Cons.IH
      by (cases "mapE f xs") (auto simp: list_all2_Cons1)
  qed
qed

lemma for_params_eq:
  "for_params body xs acc = bindE (mapE body xs) (\<lambda>rs. Inr (acc @ concat rs))"
proof (induction xs arbitrary: acc)
  case Nil
  then show ?case by simp
next
  case (Cons x xs)
  then show ?case
    by (cases "body x"; cases "mapE body xs") simp_all
qed

lemma concat_split_nth:
  "i < length rs \<Longrightarrow> concat rs = concat (take i rs) @ rs ! i @ concat (drop (Suc i) rs)"
proof -
  assume "i < length rs"
  then have "rs = take i rs @ rs ! i # drop (Suc i) rs"
    by (rule id_take_nth_drop)
  then have "concat rs = concat (take i rs @ rs ! i # drop (Suc i) rs)"
    by simp
  then show ?thesis by simp
qed

lemma date_facets_entry:
  assumes "map_of entry ''field'' = Some name"
    and "map_of entry ''start'' = Some (JObj start)"
    and "map_of entry ''end'' = Some (JObj end')"
    and "map_of entry ''gap'' = Some (JObj gap)"
    and "map_of start ''frequency'' = Some sf" and "map_of start ''unit'' = Some su"
    and "map_of end' ''frequency'' = Some ef" and "map_of end' ''unit'' = Some eu"
    and "map_of gap ''frequency'' = Some gf" and "map_of gap ''unit'' = Some gu"
  shows "date_facets repr (JObj entry) =
    Inr [(''facet.date'', name),
         (''f.'' @ py_str repr name @ ''.facet.date.start'',
          JStr (''NOW-'' @ py_str repr sf @ py_str repr su @ ''/'' @ py_str repr gu)),
         (''f.'' @ py_str repr name @ ''.facet.date.end'',
          JStr (''NOW-'' @ py_str repr ef @ py_str repr eu)),
         (''f.'' @ py_str repr name @ ''.facet.date.gap'',
          JStr (''+'' @ py_str repr gf @ py_str repr gu))]"
  using assms by (simp add: date_facets_def)

lemma loop_section_list:
  assumes "map_of doc key = Some (JList entries)" and "entries \<noteq> []"
  shows "loop_section key body (JObj doc) params = for_params body entries params"
  using assms by (simp add: loop_section_def)

text \<open>
  C5. For a date entry with \<open>start\<close>, \<open>end\<close> and \<open>gap\<close>, each with a frequency and a unit,
  the parameters the builder returns hold, side by side, \<open>facet.date\<close> with the field,
  the start \<open>NOW-<start.frequency><start.unit>/<gap.unit>\<close>, the end
  \<open>NOW-<end.frequency><end.unit>\<close> and the gap \<open>+<gap.frequency><gap.unit>\<close>, each
  under the key \<open>f.<field>.facet.date.*\<close>: only the start carries the rounding to the
  unit of the gap.
\<close>

theorem Facet_get_query_params_date_math:
  assumes "loads self_data = Inr (JObj doc)"
    and "map_of doc ''dates'' = Some (JList dates)"
    and "i < length dates" and "dates ! i = JObj entry"
    and "map_of entry ''field'' = Some name"
    and "map_of entry ''start'' = Some (JObj start)"
    and "map_of entry ''end'' = Some (JObj end')"
    and "map_of entry ''gap'' = Some (JObj gap)"
    and "map_of start ''frequency'' = Some sf" and "map_of start ''unit'' = Some su"
    and "map_of end' ''frequency'' = Some ef" and "map_of end' ''unit'' = Some eu"
    and "map_of gap ''frequency'' = Some gf" and "map_of gap ''unit'' = Some gu"
    and "Facet_get_query_params loads repr self_data = Inr params"
  shows "\<exists>before after. params = before @
    [(''facet.date'', name),
     (''f.'' @ py_str repr name @ ''.facet.date.start'',
      JStr (''NOW-'' @ py_str repr sf @ py_str repr su @ ''/'' @ py_str repr gu)),
     (''f.'' @ py_str repr name @ ''.facet.date.end'',
      JStr (''NOW-'' @ py_str repr ef @ py_str repr eu)),
     (''f.'' @ py_str repr name @ ''.facet.date.gap'',
      JStr (''+'' @ py_str repr gf @ py_str repr gu))] @ after"
proof -
  from assms(3) have ne: "dates \<noteq> []" by auto
  from assms(15) assms(1) obtain ps where
    "loop_section ''dates'' (date_facets repr) (JObj doc) ps = Inr params"
    by (auto simp: Facet_get_query_params_def bindE_eq_Inr)
  then have "for_params (date_facets repr) dates ps = Inr params"
    by (simp add: loop_section_list [OF assms(2) ne])
  then obtain rs where rs: "mapE (date_facets repr) dates = Inr rs"
    and params: "params = ps @ concat rs"
    by (auto simp: for_params_eq bindE_eq_Inr)
  from rs have l2: "list_all2 (\<lambda>x y. date_facets repr x = Inr y) dates rs"
    by (simp add: mapE_eq_Inr)
  then have len: "length rs = length dates"
    by (simp add: list_all2_lengthD)
  from l2 assms(3) have "date_facets repr (dates ! i) = Inr (rs ! i)"
    by (rule list_all2_nthD)
  with assms(4) have "date_facets repr (JObj entry) = Inr (rs ! i)" by simp
  then have rsi: "rs ! i = [(''facet.date'', name),
     (''f.'' @ py_str repr name @ ''.facet.date.start'',
      JStr (''NOW-'' @ py_str repr sf @ py_str repr su @ ''/'' @ py_str repr gu)),
     (''f.'' @ py_str repr name @ ''.facet.date.end'',
      JStr (''NOW-'' @ py_str repr ef @ py_str repr eu)),
     (''f.'' @ py_str repr name @ ''.facet.date.gap'',
      JStr (''+'' @ py_str repr gf @ py_str repr gu))]"
    by (simp add: date_facets_entry [OF assms(5-14)])
  from len assms(3) have "concat rs = concat (take i rs) @ rs ! i @ concat (drop (Suc i) rs)"
    by (simp add: concat_split_nth)
  with params have "params = (ps @ concat (take i rs)) @ rs ! i @ concat (drop (Suc i) rs)"
    by simp
  then show ?thesis unfolding rsi by blast
qed


text \<open>
  The example of the specification: field \<open>created_at\<close>, start 7 DAYS, end 1 DAYS, gap
  1 DAYS.
\<close>

theorem Facet_get_query_params_date_math_witness:
  "\<exists>params before after.
     Facet_get_query_params
       (\<lambda>text. Inr (JObj
          [(''properties'', JObj [(''isEnabled'', JBool True), (''limit'', JInt 10),
                                  (''mincount'', JInt 1), (''sort'', JStr ''count'')]),
           (''fields'', JList []),
           (''ranges'', JList []),
           (''dates'', JList [JObj
              [(''field'', JStr ''created_at''), (''label'', JStr ''Created''), (''uuid'', JStr ''u1''),
               (''start'', JObj [(''frequency'', JInt 7), (''unit'', JStr ''DAYS'')]),
               (''end'', JObj [(''frequency'', JInt 1), (''unit'', JStr ''DAYS'')]),
               (''gap'', JObj [(''frequency'', JInt 1), (''unit'', JStr ''DAYS'')])]])]))
       (\<lambda>v. []) [] = Inr params \<and>
     params = before @
       [(''facet.date'', JStr ''created_at''),
        (''f.created_at.facet.date.start'', JStr ''NOW-7DAYS/DAYS''),
        (''f.created_at.facet.date.end'', JStr ''NOW-1DAYS''),
        (''f.created_at.facet.date.gap'', JStr ''+1DAYS'')] @ after"
proof -
  let ?entry = "[(''field'', JStr ''created_at''), (''label'', JStr ''Created''), (''uuid'', JStr ''u1''),
               (''start'', JObj [(''frequency'', JInt 7), (''unit'', JStr ''DAYS'')]),
               (''end'', JObj [(''frequency'', JInt 1), (''unit'', JStr ''DAYS'')]),
               (''gap'', JObj [(''frequency'', JInt 1), (''unit'', JStr ''DAYS'')])]"
  let ?doc = "[(''properties'', JObj [(''isEnabled'', JBool True), (''limit'', JInt 10),
                                  (''mincount'', JInt 1), (''sort'', JStr ''count'')]),
           (''fields'', JList []),
           (''ranges'', JList []),
           (''dates'', JList [JObj ?entry])]"
  let ?loads = "\<lambda>text :: string. (Inr (JObj ?doc) :: error + json)"
  let ?repr = "\<lambda>v :: json. ([] :: string)"
  let ?params = "[(''facet'', JStr ''true''), (''facet.limit'', JInt 10), (''facet.mincount'', JInt 1),
      (''facet.sort'', JStr ''count''),
      (''facet.date'', JStr ''created_at''),
        (''f.created_at.facet.date.start'', JStr ''NOW-7DAYS/DAYS''),
        (''f.created_at.facet.date.end'', JStr ''NOW-1DAYS''),
        (''f.created_at.facet.date.gap'', JStr ''+1DAYS'')]"
  have run: "Facet_get_query_params ?loads ?repr [] = Inr ?params"
    by (simp add: Facet_get_query_params_def fields_section_def loop_section_def date_facets_def
        py_and_def py_or_def str_int_def digits.simps)
  have "\<exists>before after. ?params = before @
    [(''facet.date'', JStr ''created_at''),
     (''f.'' @ py_str ?repr (JStr ''created_at'') @ ''.facet.date.start'',
      JStr (''NOW-'' @ py_str ?repr (JInt 7) @ py_str ?repr (JStr ''DAYS'') @ ''/'' @ py_str ?repr (JStr ''DAYS''))),
     (''f.'' @ py_str ?repr (JStr ''created_at'') @ ''.facet.date.end'',
      JStr (''NOW-'' @ py_str ?repr (JInt 1) @ py_str ?repr (JStr ''DAYS''))),
     (''f.'' @ py_str ?repr (JStr ''created_at'') @ ''.facet.date.gap'',
      JStr (''+'' @ py_str ?repr (JInt 1) @ py_str ?repr (JStr ''DAYS'')))] @ after"
    by (rule Facet_get_query_params_date_math [where loads = ?loads and self_data = "[]"
          and doc = ?doc and i = 0 and entry = ?entry and dates = "[JObj ?entry]"
          and start = "[(''frequency'', JInt 7), (''unit'', JStr ''DAYS'')]"
          and end' = "[(''frequency'', JInt 1), (''unit'', JStr ''DAYS'')]"
          and gap = "[(''frequency'', JInt 1), (''unit'', JStr ''DAYS'')]", OF _ _ _ _ _ _ _ _ _ _ _ _ _ _ run])
      simp_all
  then have "\<exists>before after. ?params = before @
       [(''facet.date'', JStr ''created_at''),
        (''f.created_at.facet.date.start'', JStr ''NOW-7DAYS/DAYS''),
        (''f.created_at.facet.date.end'', JStr ''NOW-1DAYS''),
        (''f.created_at.facet.date.gap'', JStr ''+1DAYS'')] @ after"
    by (simp add: str_int_def digits.simps)
  with run show ?thesis by blast
qed

section \<open>Facet parameters: entries with a missing key\<close>

lemma mapE_Inr_member:
  assumes "mapE f xs = Inr ys" and "x \<in> set xs"
  shows "\<exists>y. f x = Inr y"
proof -
  from assms(1) have l2: "list_all2 (\<lambda>x y. f x = Inr y) xs ys"
    by (simp add: mapE_eq_Inr)
  from assms(2) obtain i where "i < length xs" and "xs ! i = x"
    by (auto simp: in_set_conv_nth)
  with l2 have "f x = Inr (ys ! i)"
    by (auto dest: list_all2_nthD)
  then show ?thesis by blast
qed

lemma getitem_obj_Inr: "py_getitem (JObj kvs) (JStr k) = Inr v \<longleftrightarrow> map_of kvs k = Some v"
  by (simp split: option.splits)

lemma field_facet_param_reads:
  "field_facet_param (JObj entry) = Inr y \<Longrightarrow> map_of entry ''field'' \<noteq> None"
  by (auto simp: field_facet_param_def bindE_eq_Inr split: option.splits)

lemma range_facets_reads:
  assumes "range_facets repr (JObj entry) = Inr y"
    and "key \<in> set [''field'', ''start'', ''end'', ''gap'']"
  shows "map_of entry key \<noteq> None"
  using assms by (auto simp: range_facets_def bindE_eq_Inr split: option.splits)

lemma date_facets_reads:
  assumes "date_facets repr (JObj entry) = Inr y"
    and "key \<in> set [''field'', ''start'', ''end'', ''gap'']"
  shows "map_of entry key \<noteq> None"
proof -
  from assms(1) obtain a b c d where
    "py_getitem (JObj entry) (JStr ''start'') = Inr a"
    "py_getitem (JObj entry) (JStr ''end'') = Inr b"
    "py_getitem (JObj entry) (JStr ''gap'') = Inr c"
    "py_getitem (JObj entry) (JStr ''field'') = Inr d"
    unfolding date_facets_def bindE_eq_Inr by blast
  then have "map_of entry ''start'' = Some a" "map_of entry ''end'' = Some b"
    "map_of entry ''gap'' = Some c" "map_of entry ''field'' = Some d"
    by (simp_all only: getitem_obj_Inr)
  with assms(2) show ?thesis by auto
qed

lemma fields_section_list:
  assumes "map_of doc ''fields'' = Some (JList entries)" and "entries \<noteq> []"
  shows "fields_section (JObj doc) params =
    bindE (mapE field_facet_param entries) (\<lambda>field_facets. Inr (params @ field_facets))"
  using assms by (simp add: fields_section_def)

text \<open>
  C7 (as amended). When an entry of \<open>fields\<close>, \<open>ranges\<close> or \<open>dates\<close> lacks a key the
  builder reads from it (\<open>field\<close>; for a range or a date also \<open>start\<close>, \<open>end\<close>,
  \<open>gap\<close>), the builder raises: it returns no parameters and puts no default in the
  place of the missing value.
\<close>

theorem Facet_get_query_params_missing_key_raises:
  assumes "loads self_data = Inr (JObj doc)"
    and "(part, key) \<in> set [(''fields'', ''field''),
           (''ranges'', ''field''), (''ranges'', ''start''), (''ranges'', ''end''), (''ranges'', ''gap''),
           (''dates'', ''field''), (''dates'', ''start''), (''dates'', ''end''), (''dates'', ''gap'')]"
    and "map_of doc part = Some (JList entries)"
    and "JObj entry \<in> set entries"
    and "map_of entry key = None"
  shows "\<exists>e. Facet_get_query_params loads repr self_data = Inl e"
proof (cases "Facet_get_query_params loads repr self_data")
  case (Inl e)
  then show ?thesis by blast
next
  case (Inr params)
  from assms(4) have ne: "entries \<noteq> []" by auto
  from Inr assms(1) obtain p0 p1 p2 where
    f: "fields_section (JObj doc) p0 = Inr p1"
    and r: "loop_section ''ranges'' (range_facets repr) (JObj doc) p1 = Inr p2"
    and d: "loop_section ''dates'' (date_facets repr) (JObj doc) p2 = Inr params"
    by (auto simp: Facet_get_query_params_def bindE_eq_Inr)
  from assms(2) have
    "(part = ''fields'' \<and> key = ''field'') \<or>
     (part = ''ranges'' \<and> key \<in> set [''field'', ''start'', ''end'', ''gap'']) \<or>
     (part = ''dates'' \<and> key \<in> set [''field'', ''start'', ''end'', ''gap''])"
    by auto
  then have False
  proof (elim disjE conjE)
    assume fields: "part = ''fields''" "key = ''field''"
    from assms(3) fields(1) have "map_of doc ''fields'' = Some (JList entries)" by simp
    from f fields_section_list [OF this ne]
    obtain ys where "mapE field_facet_param entries = Inr ys"
      by (auto simp: bindE_eq_Inr)
    from mapE_Inr_member [OF this assms(4)] fields(2) assms(5) show False
      by (auto dest: field_facet_param_reads)
  next
    assume ranges: "part = ''ranges''" "key \<in> set [''field'', ''start'', ''end'', ''gap'']"
    from assms(3) ranges(1) have "map_of doc ''ranges'' = Some (JList entries)" by simp
    from r loop_section_list [OF this ne]
    obtain ys where "mapE (range_facets repr) entries = Inr ys"
      by (auto simp: for_params_eq bindE_eq_Inr)
    from mapE_Inr_member [OF this assms(4)] ranges(2) assms(5) show False
      by (blast dest: range_facets_reads)
  next
    assume dates: "part = ''dates''" "key \<in> set [''field'', ''start'', ''end'', ''gap'']"
    from assms(3) dates(1) have "map_of doc ''dates'' = Some (JList entries)" by simp
    from d loop_section_list [OF this ne]
    obtain ys where "mapE (date_facets repr) entries = Inr ys"
      by (auto simp: for_params_eq bindE_eq_Inr)
    from mapE_Inr_member [OF this assms(4)] dates(2) assms(5) show False
      by (blast dest: date_facets_reads)
  qed
  then show ?thesis ..
qed

text \<open>
  C7 as stated asks for a ConfigValidationError that names the index and the kind of
  the faulty entry. The module has no such exception, and what it raises does not tell
  the entries apart: in the two configurations below, a range entry without \<open>field\<close> at
  index 0 and a date entry without \<open>field\<close> at index 1 raise the same
  \<open>KeyError('field')\<close>.
\<close>

theorem Facet_get_query_params_missing_key_counterexample:
  "Facet_get_query_params
     (\<lambda>text. Inr (JObj
        [(''properties'', JObj [(''isEnabled'', JBool True), (''limit'', JInt 10),
                                (''mincount'', JInt 1), (''sort'', JStr ''count'')]),
         (''fields'', JList []),
         (''ranges'', JList [JObj [(''label'', JStr ''Age''), (''uuid'', JStr ''u1''),
                                   (''start'', JInt 0), (''end'', JInt 100), (''gap'', JInt 10)]]),
         (''dates'', JList [])]))
     (\<lambda>v. []) [] = Inl (KeyError (JStr ''field'')) \<and>
   Facet_get_query_params
     (\<lambda>text. Inr (JObj
        [(''properties'', JObj [(''isEnabled'', JBool True), (''limit'', JInt 10),
                                (''mincount'', JInt 1), (''sort'', JStr ''count'')]),
         (''fields'', JList []),
         (''ranges'', JList []),
         (''dates'', JList
            [JObj [(''field'', JStr ''created_at''), (''label'', JStr ''Created''), (''uuid'', JStr ''u2''),
                   (''start'', JObj [(''frequency'', JInt 7), (''unit'', JStr ''DAYS'')]),
                   (''end'', JObj [(''frequency'', JInt 1), (''unit'', JStr ''DAYS'')]),
                   (''gap'', JObj [(''frequency'', JInt 1), (''unit'', JStr ''DAYS'')])],
             JObj [(''label'', JStr ''Updated''), (''uuid'', JStr ''u3''),
                   (''start'', JObj [(''frequency'', JInt 7), (''unit'', JStr ''DAYS'')]),
                   (''end'', JObj [(''frequency'', JInt 1), (''unit'', JStr ''DAYS'')]),
                   (''gap'', JObj [(''frequency'', JInt 1), (''unit'', JStr ''DAYS'')])]])]))
     (\<lambda>v. []) [] = Inl (KeyError (JStr ''field''))"
  by (simp add: Facet_get_query_params_def fields_section_def loop_section_def
      range_facets_def date_facets_def py_and_def py_or_def str_int_def digits.simps)

text \<open>The amended claim at the range entry without \<open>field\<close>.\<close>

theorem Facet_get_query_params_missing_key_raises_witness:
  "\<exists>e. Facet_get_query_params
     (\<lambda>text. Inr (JObj
        [(''properties'', JObj [(''isEnabled'', JBool True), (''limit'', JInt 10),
                                (''mincount'', JInt 1), (''sort'', JStr ''count'')]),
         (''fields'', JList []),
         (''ranges'', JList [JObj [(''label'', JStr ''Age''), (''uuid'', JStr ''u1''),
                                   (''start'', JInt 0), (''end'', JInt 100), (''gap'', JInt 10)]]),
         (''dates'', JList [])]))
     (\<lambda>v. []) [] = Inl e"
  by (rule Facet_get_query_params_missing_key_raises
        [where part = "''ranges''" and key = "''field''"
           and doc = "[(''properties'', JObj [(''isEnabled'', JBool True), (''limit'', JInt 10),
                                (''mincount'', JInt 1), (''sort'', JStr ''count'')]),
                       (''fields'', JList []),
                       (''ranges'', JList [JObj [(''label'', JStr ''Age''), (''uuid'', JStr ''u1''),
                                   (''start'', JInt 0), (''end'', JInt 100), (''gap'', JInt 10)]]),
                       (''dates'', JList [])]"
           and entries = "[JObj [(''label'', JStr ''Age''), (''uuid'', JStr ''u1''),
                                   (''start'', JInt 0), (''end'', JInt 100), (''gap'', JInt 10)]]"
           and entry = "[(''label'', JStr ''Age''), (''uuid'', JStr ''u1''),
                                   (''start'', JInt 0), (''end'', JInt 100), (''gap'', JInt 10)]"])
    simp_all

section \<open>Label and uuid resolution\<close>

lemma py_eq_JStr [simp]: "py_eq v (JStr s) \<longleftrightarrow> v = JStr s"
  by (cases v) auto

lemma getitem_attr_of:
  "attr_of e k = Some v \<Longrightarrow> py_getitem e (JStr k) = Inr v"
  by (cases e) simp_all

lemma scan_last_match:
  assumes "\<forall>e \<in> set es. facet_entry e" and "attr = ''label'' \<or> attr = ''uuid''"
  shows "scan attr (JStr name) es found =
    Inr (if filter (\<lambda>e. attr_of e ''field'' = Some (JStr name)) es = [] then found
         else the (attr_of (last (filter (\<lambda>e. attr_of e ''field'' = Some (JStr name)) es)) attr))"
  using assms(1)
proof (induction es arbitrary: found)
  case Nil
  then show ?case by simp
next
  case (Cons e es)
  from Cons.prems have fe: "facet_entry e" and rest: "\<forall>e \<in> set es. facet_entry e"
    by simp_all
  from fe obtain f where f: "attr_of e ''field'' = Some f"
    by (auto simp: facet_entry_def)
  from fe assms(2) obtain v where v: "attr_of e attr = Some v"
    by (auto simp: facet_entry_def)
  show ?case
  proof (cases "f = JStr name")
    case True
    with f v show ?thesis
      by (simp add: getitem_attr_of Cons.IH [OF rest])
  next
    case False
    with f show ?thesis
      by (simp add: getitem_attr_of Cons.IH [OF rest])
  qed
qed

lemma scan_facets_list:
  assumes "(typ, key) \<in> set [(''field'', ''fields''), (''range'', ''ranges''), (''date'', ''dates'')]"
    and "map_of cfg key = Some (JList entries)"
  shows "scan_facets attr field typ (JObj cfg) found = scan attr field entries found"
proof -
  from assms(1) have
    "(typ = ''field'' \<and> key = ''fields'') \<or> (typ = ''range'' \<and> key = ''ranges'') \<or>
     (typ = ''date'' \<and> key = ''dates'')"
    by auto
  then show ?thesis
    using assms(2) by (elim disjE conjE) (simp_all add: scan_facets_def)
qed

text \<open>
  C6 (as amended). For a field name, a kind (\<open>field\<close>, \<open>range\<close> or \<open>date\<close>) and a facet
  configuration whose sub-list of that kind is a list of entries that each carry
  \<open>field\<close>, \<open>label\<close> and \<open>uuid\<close>, both functions return and do not raise: either some
  entry of the sub-list has the name as its \<open>field\<close> and the results are the \<open>label\<close>
  and the \<open>uuid\<close> of that one entry, or no entry has it and the results are the name
  itself and the empty string.
\<close>

theorem get_facet_field_label_uuid_resolution:
  assumes "(typ, key) \<in> set [(''field'', ''fields''), (''range'', ''ranges''), (''date'', ''dates'')]"
    and "map_of cfg key = Some (JList entries)"
    and "\<forall>e \<in> set entries. facet_entry e"
  shows "(\<exists>e \<in> set entries. \<exists>label uuid.
            attr_of e ''field'' = Some (JStr name) \<and>
            attr_of e ''label'' = Some label \<and> attr_of e ''uuid'' = Some uuid \<and>
            get_facet_field_label (JStr name) typ (JObj cfg) = Inr label \<and>
            get_facet_field_uuid (JStr name) typ (JObj cfg) = Inr uuid) \<or>
         ((\<forall>e \<in> set entries. attr_of e ''field'' \<noteq> Some (JStr name)) \<and>
            get_facet_field_label (JStr name) typ (JObj cfg) = Inr (JStr name) \<and>
            get_facet_field_uuid (JStr name) typ (JObj cfg) = Inr (JStr ''''))"
proof -
  let ?ms = "filter (\<lambda>e. attr_of e ''field'' = Some (JStr name)) entries"
  have label: "get_facet_field_label (JStr name) typ (JObj cfg) =
      Inr (if ?ms = [] then JStr name else the (attr_of (last ?ms) ''label''))"
    unfolding get_facet_field_label_def scan_facets_list [OF assms(1,2)]
    by (rule scan_last_match [OF assms(3)]) simp
  have uuid: "get_facet_field_uuid (JStr name) typ (JObj cfg) =
      Inr (if ?ms = [] then JStr '''' else the (attr_of (last ?ms) ''uuid''))"
    unfolding get_facet_field_uuid_def scan_facets_list [OF assms(1,2)]
    by (rule scan_last_match [OF assms(3)]) simp
  show ?thesis
  proof (cases "?ms = []")
    case True
    then have "\<forall>e \<in> set entries. attr_of e ''field'' \<noteq> Some (JStr name)"
      by (simp add: filter_empty_conv)
    with True label uuid show ?thesis by simp
  next
    case False
    then have "last ?ms \<in> set ?ms" by (rule last_in_set)
    then have mem: "last ?ms \<in> set entries"
      and fld: "attr_of (last ?ms) ''field'' = Some (JStr name)"
      by simp_all
    from mem assms(3) have "facet_entry (last ?ms)" by blast
    then obtain l u where "attr_of (last ?ms) ''label'' = Some l"
      and "attr_of (last ?ms) ''uuid'' = Some u"
      by (auto simp: facet_entry_def)
    with False label uuid mem fld show ?thesis by auto
  qed
qed


text \<open>
  C6 as stated holds for every facet configuration and says that the resolution never
  raises. The two functions read \<^verbatim>\<open>facets[...]\<close>, \<^verbatim>\<open>fld['field']\<close>, \<^verbatim>\<open>fld['label']\<close> and
  \<^verbatim>\<open>fld['uuid']\<close> by subscription, with no check before: a miss over an entry without
  \<open>field\<close>, a matching entry without \<open>uuid\<close>, and a configuration without the sub-list
  of the kind each raise KeyError.
\<close>

theorem get_facet_field_malformed_configuration_counterexample:
  "get_facet_field_label (JStr ''category'') ''field''
     (JObj [(''properties'', JObj [(''isEnabled'', JBool True)]),
            (''fields'', JList [JObj [(''label'', JStr ''Author''), (''uuid'', JStr ''u1'')]]),
            (''ranges'', JList []),
            (''dates'', JList [])]) = Inl (KeyError (JStr ''field'')) \<and>
   get_facet_field_uuid (JStr ''category'') ''field''
     (JObj [(''properties'', JObj [(''isEnabled'', JBool True)]),
            (''fields'', JList [JObj [(''field'', JStr ''category''), (''label'', JStr ''Category'')]]),
            (''ranges'', JList []),
            (''dates'', JList [])]) = Inl (KeyError (JStr ''uuid'')) \<and>
   get_facet_field_label (JStr ''age'') ''range''
     (JObj [(''properties'', JObj [(''isEnabled'', JBool True)]),
            (''fields'', JList [])]) = Inl (KeyError (JStr ''ranges''))"
  by (simp add: get_facet_field_label_def get_facet_field_uuid_def scan_facets_def)

text \<open>A miss: no range entry has the field \<open>price\<close>.\<close>

theorem get_facet_field_label_uuid_resolution_witness:
  "get_facet_field_label (JStr ''price'') ''range''
     (JObj [(''properties'', JObj [(''isEnabled'', JBool True)]),
            (''fields'', JList [JObj [(''field'', JStr ''category''), (''label'', JStr ''Category''),
                                      (''uuid'', JStr ''u1'')]]),
            (''ranges'', JList [JObj [(''field'', JStr ''age''), (''label'', JStr ''Age''),
                                      (''uuid'', JStr ''u2''), (''start'', JInt 0),
                                      (''end'', JInt 100), (''gap'', JInt 10)]]),
            (''dates'', JList [])]) = Inr (JStr ''price'') \<and>
   get_facet_field_uuid (JStr ''price'') ''range''
     (JObj [(''properties'', JObj [(''isEnabled'', JBool True)]),
            (''fields'', JList [JObj [(''field'', JStr ''category''), (''label'', JStr ''Category''),
                                      (''uuid'', JStr ''u1'')]]),
            (''ranges'', JList [JObj [(''field'', JStr ''age''), (''label'', JStr ''Age''),
                                      (''uuid'', JStr ''u2''), (''start'', JInt 0),
                                      (''end'', JInt 100), (''gap'', JInt 10)]]),
            (''dates'', JList [])]) = Inr (JStr '''')"
proof -
  let ?ranges = "[JObj [(''field'', JStr ''age''), (''label'', JStr ''Age''),
                        (''uuid'', JStr ''u2''), (''start'', JInt 0),
                        (''end'', JInt 100), (''gap'', JInt 10)]]"
  let ?cfg = "[(''properties'', JObj [(''isEnabled'', JBool True)]),
            (''fields'', JList [JObj [(''field'', JStr ''category''), (''label'', JStr ''Category''),
                                      (''uuid'', JStr ''u1'')]]),
            (''ranges'', JList ?ranges),
            (''dates'', JList [])]"
  have "(''range'', ''ranges'') \<in> set [(''field'', ''fields''), (''range'', ''ranges''), (''date'', ''dates'')]"
    by simp
  moreover have "map_of ?cfg ''ranges'' = Some (JList ?ranges)"
    by simp
  moreover have "\<forall>e \<in> set ?ranges. facet_entry e"
    by (simp add: facet_entry_def)
  ultimately show ?thesis
    using get_facet_field_label_uuid_resolution [of "''range''" "''ranges''" ?cfg ?ranges "''price''"]
    by simp
qed


section \<open>Merging a partial update\<close>

lemma setitem_Inr:
  "py_setitem d k v = Inr d' \<longleftrightarrow> (\<exists>kvs. d = JObj kvs \<and> d' = JObj (AList.update k v kvs))"
  by (cases d) auto

lemma merge_post_frame:
  assumes "merge_post loads post_data attrs d = Inr d'"
  shows "case (if k \<in> set attrs then post_data k else None) of
           Some posted \<Rightarrow> \<exists>v. loads posted = Inr v \<and> attr_of d' k = Some v
         | None \<Rightarrow> attr_of d' k = attr_of d k"
  using assms
proof (induction attrs arbitrary: d)
  case Nil
  then show ?case by simp
next
  case (Cons a attrs)
  show ?case
  proof (cases "post_data a")
    case None
    with Cons.prems have "merge_post loads post_data attrs d = Inr d'" by simp
    from Cons.IH [OF this] None show ?thesis
      by (cases "k = a") (auto split: if_splits)
  next
    case (Some posted)
    with Cons.prems obtain v d1 where v: "loads posted = Inr v"
      and d1: "py_setitem d a v = Inr d1"
      and rest: "merge_post loads post_data attrs d1 = Inr d'"
      by (auto simp: bindE_eq_Inr)
    from d1 obtain kvs where d: "d = JObj kvs" and d1': "d1 = JObj (AList.update a v kvs)"
      by (auto simp: setitem_Inr)
    have ih: "case (if k \<in> set attrs then post_data k else None) of
           Some posted \<Rightarrow> \<exists>v. loads posted = Inr v \<and> attr_of d' k = Some v
         | None \<Rightarrow> attr_of d' k = attr_of d1 k"
      by (rule Cons.IH [OF rest])
    show ?thesis
    proof (cases "k = a")
      case True
      with ih Some v d1' show ?thesis
        by (auto simp: update_conv' split: if_splits option.splits)
    next
      case False
      with ih d d1' show ?thesis
        by (auto simp: update_conv' split: if_splits option.splits)
    qed
  qed
qed


text \<open>
  C4. When \<open>update_from_post\<close> returns, the text it stores encodes a document \<open>doc'\<close>
  that relates to the stored document \<open>doc\<close> key by key: under a name of the attribute
  list for which the update holds a text, \<open>doc'\<close> has the decoded value of that text;
  under every other key (an attribute the update does not hold, or a name outside the
  attribute list, posted or not) \<open>doc'\<close> has what \<open>doc\<close> has.
\<close>

theorem update_from_post_frame:
  assumes "update_from_post loads dumps attributes self_data post_data = Inr data'"
  shows "\<exists>doc doc'. loads self_data = Inr doc \<and> data' = dumps doc' \<and>
           (\<forall>k. case (if k \<in> set attributes then post_data k else None) of
                  Some posted \<Rightarrow> \<exists>v. loads posted = Inr v \<and> attr_of doc' k = Some v
                | None \<Rightarrow> attr_of doc' k = attr_of doc k)"
proof -
  from assms obtain doc doc' where "loads self_data = Inr doc"
    and m: "merge_post loads post_data attributes doc = Inr doc'" and "data' = dumps doc'"
    by (auto simp: update_from_post_def bindE_eq_Inr)
  with merge_post_frame [OF m] show ?thesis by blast
qed



text \<open>
  A facet document and an update that holds \<open>fields\<close> and the unrecognised name
  \<open>template\<close>: \<open>fields\<close> is replaced, \<open>properties\<close>, \<open>ranges\<close>, \<open>dates\<close> and \<open>order\<close> are
  as before, and no \<open>template\<close> appears. \<open>loads\<close> and \<open>dumps\<close> are \<^verbatim>\<open>json.loads\<close> and
  \<^verbatim>\<open>json.dumps\<close> on the texts that occur.
\<close>

theorem update_from_post_frame_witness:
  \<open>let loads = (\<lambda>text.
         if text = ''{"properties": {"limit": 10}, "fields": [], "ranges": [], "dates": [], "order": []}''
         then Inr (JObj [(''properties'', JObj [(''limit'', JInt 10)]), (''fields'', JList []),
                         (''ranges'', JList []), (''dates'', JList []), (''order'', JList [])])
         else if text = ''[{"field": "cat", "label": "Cat", "uuid": "u1"}]''
         then Inr (JList [JObj [(''field'', JStr ''cat''), (''label'', JStr ''Cat''), (''uuid'', JStr ''u1'')]])
         else if text = ''"x"'' then Inr (JStr ''x'')
         else Inl ValueError);
       dumps = (\<lambda>doc.
         if doc = JObj [(''properties'', JObj [(''limit'', JInt 10)]),
                        (''fields'', JList [JObj [(''field'', JStr ''cat''), (''label'', JStr ''Cat''),
                                                  (''uuid'', JStr ''u1'')]]),
                        (''ranges'', JList []), (''dates'', JList []), (''order'', JList [])]
         then ''{"properties": {"limit": 10}, "fields": [{"field": "cat", "label": "Cat", "uuid": "u1"}], "ranges": [], "dates": [], "order": []}''
         else ''null'');
       post_data = map_of [(''fields'', ''[{"field": "cat", "label": "Cat", "uuid": "u1"}]''),
                           (''template'', ''"x"'')]
   in \<exists>doc doc'.
        loads ''{"properties": {"limit": 10}, "fields": [], "ranges": [], "dates": [], "order": []}'' = Inr doc \<and>
        Facet_update_from_post loads dumps
          ''{"properties": {"limit": 10}, "fields": [], "ranges": [], "dates": [], "order": []}''
          post_data = Inr (dumps doc') \<and>
        attr_of doc' ''fields'' =
          Some (JList [JObj [(''field'', JStr ''cat''), (''label'', JStr ''Cat''), (''uuid'', JStr ''u1'')]]) \<and>
        attr_of doc' ''properties'' = attr_of doc ''properties'' \<and>
        attr_of doc' ''ranges'' = attr_of doc ''ranges'' \<and>
        attr_of doc' ''dates'' = attr_of doc ''dates'' \<and>
        attr_of doc' ''order'' = attr_of doc ''order'' \<and>
        attr_of doc' ''template'' = attr_of doc ''template''\<close>
proof -
  let ?S0 = \<open>''{"properties": {"limit": 10}, "fields": [], "ranges": [], "dates": [], "order": []}''\<close>
  let ?S1 = \<open>''{"properties": {"limit": 10}, "fields": [{"field": "cat", "label": "Cat", "uuid": "u1"}], "ranges": [], "dates": [], "order": []}''\<close>
  let ?P = \<open>''[{"field": "cat", "label": "Cat", "uuid": "u1"}]''\<close>
  let ?v = "JList [JObj [(''field'', JStr ''cat''), (''label'', JStr ''Cat''), (''uuid'', JStr ''u1'')]]"
  let ?doc0 = "JObj [(''properties'', JObj [(''limit'', JInt 10)]), (''fields'', JList []),
                         (''ranges'', JList []), (''dates'', JList []), (''order'', JList [])]"
  let ?doc1 = "JObj [(''properties'', JObj [(''limit'', JInt 10)]), (''fields'', ?v),
                        (''ranges'', JList []), (''dates'', JList []), (''order'', JList [])]"
  let ?loads = \<open>\<lambda>text. if text = ?S0 then Inr ?doc0 else if text = ?P then Inr ?v
         else if text = ''"x"'' then Inr (JStr ''x'') else (Inl ValueError :: error + json)\<close>
  let ?dumps = "\<lambda>doc. if doc = ?doc1 then ?S1 else ''null''"
  let ?post = \<open>map_of [(''fields'', ?P), (''template'', ''"x"'')]\<close>
  have run: "update_from_post ?loads ?dumps Facet_ATTRIBUTES ?S0 ?post = Inr ?S1"
    by (simp add: update_from_post_def Facet_ATTRIBUTES_def)
  from update_from_post_frame [of ?loads ?dumps Facet_ATTRIBUTES ?S0 ?post ?S1, OF run]
  obtain doc doc' where
    l: "?loads ?S0 = Inr doc" and d: "?S1 = ?dumps doc'"
    and frame: "\<And>k. case (if k \<in> set Facet_ATTRIBUTES then ?post k else None) of
                  Some posted \<Rightarrow> \<exists>v. ?loads posted = Inr v \<and> attr_of doc' k = Some v
                | None \<Rightarrow> attr_of doc' k = attr_of doc k"
    by blast
  from frame [of "''fields''"] have "attr_of doc' ''fields'' = Some ?v"
    by (simp add: Facet_ATTRIBUTES_def)
  moreover from frame [of "''properties''"] have "attr_of doc' ''properties'' = attr_of doc ''properties''"
    by (simp add: Facet_ATTRIBUTES_def)
  moreover from frame [of "''ranges''"] have "attr_of doc' ''ranges'' = attr_of doc ''ranges''"
    by (simp add: Facet_ATTRIBUTES_def)
  moreover from frame [of "''dates''"] have "attr_of doc' ''dates'' = attr_of doc ''dates''"
    by (simp add: Facet_ATTRIBUTES_def)
  moreover from frame [of "''order''"] have "attr_of doc' ''order'' = attr_of doc ''order''"
    by (simp add: Facet_ATTRIBUTES_def)
  moreover from frame [of "''template''"] have "attr_of doc' ''template'' = attr_of doc ''template''"
    by (simp add: Facet_ATTRIBUTES_def)
  moreover from run d have "Facet_update_from_post ?loads ?dumps ?S0 ?post = Inr (?dumps doc')"
    by (simp only: Facet_update_from_post_def)
  ultimately show ?thesis
    unfolding Let_def using l by blast
qed


section \<open>Response normalization\<close>

lemma py_eq_hashable_cong:
  "hashable a \<Longrightarrow> hashable b \<Longrightarrow> py_eq a b \<Longrightarrow> py_eq a u = py_eq b u"
  by (cases a; cases b) (auto split: if_splits)

lemma py_eq_hashable_join:
  "hashable a \<Longrightarrow> hashable b \<Longrightarrow> py_eq a u \<Longrightarrow> py_eq b u \<Longrightarrow> py_eq a b"
  by (cases a; cases b) (auto split: if_splits)

lemma py_eq_unhashable:
  "hashable a \<Longrightarrow> \<not> hashable u \<Longrightarrow> \<not> py_eq a u"
  by (cases a; cases u) auto

lemma dict_find_update:
  assumes "\<forall>e \<in> set d. hashable (fst e)" and "hashable k"
  shows "dict_find u (dict_update k v d) = (if py_eq k u then Some v else dict_find u d)"
  using assms(1)
proof (induction d)
  case Nil
  then show ?case by simp
next
  case (Cons e d)
  then have he: "hashable (fst e)" and ih:
    "dict_find u (dict_update k v d) = (if py_eq k u then Some v else dict_find u d)"
    by simp_all
  show ?case
  proof (cases "py_eq (fst e) k")
    case True
    from py_eq_hashable_cong [OF he assms(2) True] True show ?thesis by simp
  next
    case False
    with py_eq_hashable_join [OF he assms(2), of u] ih show ?thesis by auto
  qed
qed

lemma dict_update_keys:
  "\<forall>e \<in> set d. hashable (fst e) \<Longrightarrow> hashable k \<Longrightarrow>
   \<forall>e \<in> set (dict_update k v d). hashable (fst e)"
  by (induction d) auto

lemma dict_find_unhashable:
  "\<forall>e \<in> set d. hashable (fst e) \<Longrightarrow> \<not> hashable u \<Longrightarrow> dict_find u d = None"
  by (induction d) (auto simp: py_eq_unhashable)

lemma for_cats_split:
  "for_cats body cats st = Inr st' \<longleftrightarrow>
   (\<exists>recs. mapE body cats = Inr recs \<and> for_cats Inr recs st = Inr st')"
proof (induction cats arbitrary: st)
  case Nil
  then show ?case by auto
next
  case (Cons cat cats)
  show ?case
  proof (cases "body cat")
    case (Inl e)
    then show ?thesis by simp
  next
    case (Inr r)
    show ?thesis
    proof (cases "place (fst r) (snd r) st")
      case (Inl e)
      with Inr show ?thesis by (auto simp: bindE_eq_Inr)
    next
      case st1: (Inr st1)
      with Inr Cons.IH [of st1] show ?thesis
        by (auto simp: bindE_eq_Inr)
    qed
  qed
qed

lemma for_cats_append:
  "for_cats Inr (a @ b) st = bindE (for_cats Inr a st) (for_cats Inr b)"
proof (induction a arbitrary: st)
  case Nil
  then show ?case by simp
next
  case (Cons r a)
  then show ?case by (cases "place (fst r) (snd r) st") simp_all
qed

lemma keyed_record_Cons:
  "keyed_record (r # rs) u =
   (case keyed_record rs u of
      Some f \<Rightarrow> Some f
    | None \<Rightarrow> if \<not> py_eq (fst r) (JStr '''') \<and> py_eq (fst r) u then Some (snd r) else None)"
  by (simp add: keyed_record_def Let_def)

lemma placed_records:
  assumes "for_cats Inr recs (nf, df) = Inr (nf', df')" and "\<forall>e \<in> set nf. hashable (fst e)"
  shows "df' = df @ map snd (filter (\<lambda>r. py_eq (fst r) (JStr '''')) recs) \<and>
         (\<forall>e \<in> set nf'. hashable (fst e)) \<and>
         (\<forall>u. dict_find u nf' = (case keyed_record recs u of Some f \<Rightarrow> Some f | None \<Rightarrow> dict_find u nf))"
  using assms
proof (induction recs arbitrary: nf df)
  case Nil
  then show ?case by (simp add: keyed_record_def)
next
  case (Cons r recs)
  show ?case
  proof (cases "py_eq (fst r) (JStr '''')")
    case True
    with Cons.prems(1) have "for_cats Inr recs (nf, df @ [snd r]) = Inr (nf', df')"
      by (simp add: place_def)
    from Cons.IH [OF this Cons.prems(2)] True show ?thesis
      by (simp add: keyed_record_Cons split: option.splits)
  next
    case False
    with Cons.prems(1) have h: "hashable (fst r)"
      and rest: "for_cats Inr recs (dict_update (fst r) (snd r) nf, df) = Inr (nf', df')"
      by (auto simp: place_def dict_setitem_def bindE_eq_Inr split: if_splits)
    from Cons.prems(2) h have keys: "\<forall>e \<in> set (dict_update (fst r) (snd r) nf). hashable (fst e)"
      by (rule dict_update_keys)
    from Cons.IH [OF rest keys] have
      df: "df' = df @ map snd (filter (\<lambda>r. py_eq (fst r) (JStr '''')) recs)"
      and keys': "\<forall>e \<in> set nf'. hashable (fst e)"
      and find: "\<And>u. dict_find u nf' =
        (case keyed_record recs u of Some f \<Rightarrow> Some f
         | None \<Rightarrow> dict_find u (dict_update (fst r) (snd r) nf))"
      by simp_all
    have "dict_find u nf' =
        (case keyed_record (r # recs) u of Some f \<Rightarrow> Some f | None \<Rightarrow> dict_find u nf)" for u
      using find [of u] False
      by (simp add: keyed_record_Cons dict_find_update [OF Cons.prems(2) h] split: option.splits)
    with df keys' False show ?thesis by simp
  qed
qed

lemma append_ordered_eq:
  assumes "\<forall>e \<in> set nf. hashable (fst e)"
  shows "append_ordered nf uuids out =
    out @ concat (map (\<lambda>u. case dict_find u nf of None \<Rightarrow> [] | Some f \<Rightarrow> [f]) uuids)"
proof (induction uuids arbitrary: out)
  case Nil
  then show ?case by simp
next
  case (Cons u uuids)
  show ?case
  proof (cases "hashable u")
    case True
    with Cons.IH show ?thesis
      by (simp add: dict_getitem_def split: option.splits)
  next
    case False
    with dict_find_unhashable [OF assms False] Cons.IH show ?thesis
      by (simp add: dict_getitem_def)
  qed
qed


lemma field_record_augmented:
  "field_record (JObj (AList.update ''normalized_facets'' v r)) facets = field_record (JObj r) facets"
  by (rule ext) (simp add: field_record_def update_conv')

lemma range_record_augmented:
  "range_record (JObj (AList.update ''normalized_facets'' v r)) facets = range_record (JObj r) facets"
  by (rule ext) (simp add: range_record_def update_conv')

lemma date_record_augmented:
  "date_record (JObj (AList.update ''normalized_facets'' v r)) facets = date_record (JObj r) facets"
  by (rule ext) (simp add: date_record_def update_conv')

lemma category_augmented:
  "category (JObj (AList.update ''normalized_facets'' v r)) key body st = category (JObj r) key body st"
  by (simp add: category_def update_conv')

lemma category_split:
  "category response key body st = Inr st' \<longleftrightarrow>
   (\<exists>recs. category_records response key body = Inr recs \<and> for_cats Inr recs st = Inr st')"
proof (cases "py_path response [JStr ''facet_counts'', JStr key]")
  case (Inl e)
  then show ?thesis by (simp add: category_def category_records_def)
next
  case (Inr cats)
  show ?thesis
  proof (cases "py_truthy cats")
    case True
    show ?thesis
    proof (cases "py_iter cats")
      case (Inl e)
      with Inr True show ?thesis by (simp add: category_def category_records_def)
    next
      case items: (Inr items)
      with Inr True show ?thesis
        by (simp add: category_def category_records_def for_cats_split [of body])
    qed
  next
    case False
    with Inr show ?thesis by (auto simp: category_def category_records_def)
  qed
qed

lemma collect_discovered:
  assumes "collect (JObj (AList.update ''normalized_facets'' v r)) facets = Inr st"
  shows "\<exists>recs. discovered_records (JObj r) facets = Inr recs \<and> for_cats Inr recs ([], []) = Inr st"
proof (cases "py_truthy (case map_of r ''facet_counts'' of None \<Rightarrow> JNull | Some fc \<Rightarrow> fc)")
  case False
  with assms show ?thesis
    by (simp add: collect_def discovered_records_def update_conv')
next
  case True
  with assms obtain st1 st2 where
    c1: "category (JObj r) ''facet_fields'' (field_record (JObj r) facets) ([], []) = Inr st1"
    and c2: "category (JObj r) ''facet_ranges'' (range_record (JObj r) facets) st1 = Inr st2"
    and c3: "category (JObj r) ''facet_dates'' (date_record (JObj r) facets) st2 = Inr st"
    by (auto simp: collect_def update_conv' bindE_eq_Inr category_augmented
        field_record_augmented range_record_augmented date_record_augmented)
  from c1 obtain a where
    a: "category_records (JObj r) ''facet_fields'' (field_record (JObj r) facets) = Inr a"
    and pa: "for_cats Inr a ([], []) = Inr st1"
    unfolding category_split by blast
  from c2 obtain b where
    b: "category_records (JObj r) ''facet_ranges'' (range_record (JObj r) facets) = Inr b"
    and pb: "for_cats Inr b st1 = Inr st2"
    unfolding category_split by blast
  from c3 obtain c where
    c: "category_records (JObj r) ''facet_dates'' (date_record (JObj r) facets) = Inr c"
    and pc: "for_cats Inr c st2 = Inr st"
    unfolding category_split by blast
  from True a b c have "discovered_records (JObj r) facets = Inr (a @ b @ c)"
    by (simp add: discovered_records_def)
  moreover from pa pb pc have "for_cats Inr (a @ b @ c) ([], []) = Inr st"
    by (simp add: for_cats_append)
  ultimately show ?thesis by blast
qed

lemma augment_Returned:
  assumes "augment_solr_response response facets = (augmented, Returned)"
  shows "\<exists>r st order uuids. response = JObj r \<and>
           collect (JObj (AList.update ''normalized_facets'' (JList []) r)) facets = Inr st \<and>
           py_get facets ''order'' (JList []) = Inr order \<and> py_iter order = Inr uuids \<and>
           augmented = JObj (AList.update ''normalized_facets''
                               (JList (append_ordered (fst st) uuids [] @ snd st)) r)"
proof (cases response)
  case (JObj r)
  let ?aug = "JObj (AList.update ''normalized_facets'' (JList []) r)"
  show ?thesis
  proof (cases "collect ?aug facets")
    case (Inl e)
    with assms JObj show ?thesis by (simp add: augment_solr_response_def)
  next
    case st: (Inr st)
    show ?thesis
    proof (cases "py_get facets ''order'' (JList [])")
      case (Inl e)
      with assms JObj st show ?thesis by (simp add: augment_solr_response_def)
    next
      case order: (Inr order)
      show ?thesis
      proof (cases "py_iter order")
        case (Inl e)
        with assms JObj st order show ?thesis by (simp add: augment_solr_response_def)
      next
        case uuids: (Inr uuids)
        with assms JObj st order have
          "augmented = JObj (AList.update ''normalized_facets''
                               (JList (append_ordered (fst st) uuids [] @ snd st)) r)"
          by (auto simp: augment_solr_response_def Let_def split: if_splits)
        with JObj st order uuids show ?thesis by blast
      qed
    qed
  qed
qed (use assms in \<open>simp_all add: augment_solr_response_def\<close>)

text \<open>
  C2. When the call returns, the list under \<open>normalized_facets\<close> is the one the
  specification describes: for each uuid of the order list, in the order of the list,
  the record kept under that uuid if there is one, and nothing otherwise; then every
  record whose uuid is the empty string, in the order of discovery.
\<close>

theorem augment_solr_response_order:
  assumes "augment_solr_response response facets = (augmented, Returned)"
  shows "\<exists>records order uuids.
           discovered_records response facets = Inr records \<and>
           py_get facets ''order'' (JList []) = Inr order \<and> py_iter order = Inr uuids \<and>
           attr_of augmented ''normalized_facets'' =
             Some (JList (spec_normalized_facets uuids records))"
proof -
  from augment_Returned [OF assms] obtain r st order uuids where
    r: "response = JObj r"
    and st: "collect (JObj (AList.update ''normalized_facets'' (JList []) r)) facets = Inr st"
    and order: "py_get facets ''order'' (JList []) = Inr order"
    and uuids: "py_iter order = Inr uuids"
    and aug: "augmented = JObj (AList.update ''normalized_facets''
                               (JList (append_ordered (fst st) uuids [] @ snd st)) r)"
    by blast
  from collect_discovered [OF st] obtain recs where
    recs: "discovered_records (JObj r) facets = Inr recs"
    and placed: "for_cats Inr recs ([], []) = Inr st"
    by blast
  from placed have "for_cats Inr recs ([], []) = Inr (fst st, snd st)" by simp
  from placed_records [OF this] have
    df: "snd st = map snd (filter (\<lambda>r. py_eq (fst r) (JStr '''')) recs)"
    and keys: "\<forall>e \<in> set (fst st). hashable (fst e)"
    and find: "\<And>u. dict_find u (fst st) = keyed_record recs u"
    by (simp_all split: option.splits)
  have "append_ordered (fst st) uuids [] @ snd st = spec_normalized_facets uuids recs"
    by (simp add: append_ordered_eq [OF keys] find df spec_normalized_facets_def)
  with aug have "attr_of augmented ''normalized_facets'' =
      Some (JList (spec_normalized_facets uuids recs))"
    by (simp add: update_conv')
  with r recs order uuids show ?thesis by blast
qed


text \<open>
  The example of the specification: the order list is \<open>u2, u1\<close>, the response has the
  facets \<open>f1\<close> (uuid \<open>u1\<close>), \<open>f2\<close> (uuid \<open>u2\<close>) and \<open>f3\<close> (not configured).
\<close>

theorem augment_solr_response_order_witness:
  "\<exists>augmented.
     augment_solr_response
       (JObj [(''responseHeader'', JObj [(''status'', JInt 0)]),
              (''facet_counts'', JObj
                 [(''facet_fields'', JObj [(''f1'', JList [JStr ''a'', JInt 1]),
                                           (''f2'', JList [JStr ''b'', JInt 2]),
                                           (''f3'', JList [JStr ''c'', JInt 3])]),
                  (''facet_ranges'', JObj []),
                  (''facet_dates'', JObj [])])])
       (JObj [(''properties'', JObj [(''isEnabled'', JBool True)]),
              (''fields'', JList [JObj [(''field'', JStr ''f1''), (''label'', JStr ''F1''), (''uuid'', JStr ''u1'')],
                                  JObj [(''field'', JStr ''f2''), (''label'', JStr ''F2''), (''uuid'', JStr ''u2'')]]),
              (''ranges'', JList []),
              (''dates'', JList []),
              (''order'', JList [JStr ''u2'', JStr ''u1''])])
     = (augmented, Returned) \<and>
     attr_of augmented ''normalized_facets'' = Some (JList
       [JObj [(''field'', JStr ''f2''), (''type'', JStr ''field''), (''label'', JStr ''F2''),
              (''counts'', JList [JStr ''b'', JInt 2])],
        JObj [(''field'', JStr ''f1''), (''type'', JStr ''field''), (''label'', JStr ''F1''),
              (''counts'', JList [JStr ''a'', JInt 1])],
        JObj [(''field'', JStr ''f3''), (''type'', JStr ''field''), (''label'', JStr ''f3''),
              (''counts'', JList [JStr ''c'', JInt 3])]])"
proof -
  let ?resp = "JObj [(''responseHeader'', JObj [(''status'', JInt 0)]),
              (''facet_counts'', JObj
                 [(''facet_fields'', JObj [(''f1'', JList [JStr ''a'', JInt 1]),
                                           (''f2'', JList [JStr ''b'', JInt 2]),
                                           (''f3'', JList [JStr ''c'', JInt 3])]),
                  (''facet_ranges'', JObj []),
                  (''facet_dates'', JObj [])])]"
  let ?facets = "JObj [(''properties'', JObj [(''isEnabled'', JBool True)]),
              (''fields'', JList [JObj [(''field'', JStr ''f1''), (''label'', JStr ''F1''), (''uuid'', JStr ''u1'')],
                                  JObj [(''field'', JStr ''f2''), (''label'', JStr ''F2''), (''uuid'', JStr ''u2'')]]),
              (''ranges'', JList []),
              (''dates'', JList []),
              (''order'', JList [JStr ''u2'', JStr ''u1''])]"
  let ?r1 = "JObj [(''field'', JStr ''f1''), (''type'', JStr ''field''), (''label'', JStr ''F1''),
              (''counts'', JList [JStr ''a'', JInt 1])]"
  let ?r2 = "JObj [(''field'', JStr ''f2''), (''type'', JStr ''field''), (''label'', JStr ''F2''),
              (''counts'', JList [JStr ''b'', JInt 2])]"
  let ?r3 = "JObj [(''field'', JStr ''f3''), (''type'', JStr ''field''), (''label'', JStr ''f3''),
              (''counts'', JList [JStr ''c'', JInt 3])]"
  let ?aug = "JObj [(''responseHeader'', JObj [(''status'', JInt 0)]),
              (''facet_counts'', JObj
                 [(''facet_fields'', JObj [(''f1'', JList [JStr ''a'', JInt 1]),
                                           (''f2'', JList [JStr ''b'', JInt 2]),
                                           (''f3'', JList [JStr ''c'', JInt 3])]),
                  (''facet_ranges'', JObj []),
                  (''facet_dates'', JObj [])]),
              (''normalized_facets'', JList [?r2, ?r1, ?r3])]"
  have records: "discovered_records ?resp ?facets =
      Inr [(JStr ''u1'', ?r1), (JStr ''u2'', ?r2), (JStr '''', ?r3)]"
    by (simp add: discovered_records_def category_records_def field_record_def
        get_facet_field_label_def get_facet_field_uuid_def scan_facets_def)
  have run: "augment_solr_response ?resp ?facets = (?aug, Returned)"
    by (simp add: augment_solr_response_def collect_def category_def field_record_def
        get_facet_field_label_def get_facet_field_uuid_def scan_facets_def place_def
        dict_setitem_def dict_getitem_def)
  from augment_solr_response_order [of ?resp ?facets ?aug, OF run]
  obtain recs order uuids where
    "discovered_records ?resp ?facets = Inr recs"
    and "py_get ?facets ''order'' (JList []) = Inr order" and "py_iter order = Inr uuids"
    and n: "attr_of ?aug ''normalized_facets'' = Some (JList (spec_normalized_facets uuids recs))"
    by blast
  with records have "recs = [(JStr ''u1'', ?r1), (JStr ''u2'', ?r2), (JStr '''', ?r3)]"
    and "uuids = [JStr ''u2'', JStr ''u1'']"
    by auto
  then have "spec_normalized_facets uuids recs = [?r2, ?r1, ?r3]"
    by (simp add: spec_normalized_facets_def keyed_record_def)
  with n run show ?thesis by simp
qed

lemma append_ordered_empty: "append_ordered [] uuids out = out"
  by (induction uuids arbitrary: out) (simp_all add: dict_getitem_def)

text \<open>
  C3 (as amended). When the response has no \<open>facet_counts\<close> key, or an empty value under
  it, and the configuration is a mapping whose \<open>order\<close>, if present, can be iterated,
  the call returns the response with \<open>normalized_facets = []\<close>.
\<close>

theorem augment_solr_response_no_facet_counts:
  assumes "map_of response ''facet_counts'' = None \<or>
           (\<exists>facet_counts. map_of response ''facet_counts'' = Some facet_counts \<and>
                            \<not> py_truthy facet_counts)"
    and "py_get facets ''order'' (JList []) = Inr order"
    and "py_iter order = Inr uuids"
  shows "augment_solr_response (JObj response) facets =
           (JObj (AList.update ''normalized_facets'' (JList []) response), Returned)"
proof -
  from assms(1) have
    "collect (JObj (AList.update ''normalized_facets'' (JList []) response)) facets = Inr ([], [])"
    by (auto simp: collect_def update_conv')
  with assms(2,3) show ?thesis
    by (simp add: augment_solr_response_def append_ordered_empty)
qed

text \<open>
  A response without facet data, and the configuration a new collection is created
  with (it has no \<open>order\<close>).
\<close>

theorem augment_solr_response_no_facet_counts_witness:
  "augment_solr_response
     (JObj [(''responseHeader'', JObj [(''status'', JInt 0)]),
            (''response'', JObj [(''numFound'', JInt 0), (''docs'', JList [])])])
     (JObj [(''properties'', JObj [(''isEnabled'', JBool False), (''limit'', JInt 10),
                                   (''mincount'', JInt 1), (''sort'', JStr ''count'')]),
            (''ranges'', JList []), (''fields'', JList []), (''dates'', JList [])])
   = (JObj [(''responseHeader'', JObj [(''status'', JInt 0)]),
            (''response'', JObj [(''numFound'', JInt 0), (''docs'', JList [])]),
            (''normalized_facets'', JList [])], Returned)"
  using augment_solr_response_no_facet_counts
    [of "[(''responseHeader'', JObj [(''status'', JInt 0)]),
          (''response'', JObj [(''numFound'', JInt 0), (''docs'', JList [])])]"
        "JObj [(''properties'', JObj [(''isEnabled'', JBool False), (''limit'', JInt 10),
                                   (''mincount'', JInt 1), (''sort'', JStr ''count'')]),
            (''ranges'', JList []), (''fields'', JList []), (''dates'', JList [])]"
        "JList []" "[]"]
  by simp

text \<open>
  C3 as stated also covers a \<open>facet_counts\<close> that lacks one of its three sub-keys. The
  source guards \<open>facet_counts\<close> with \<^verbatim>\<open>response.get\<close> and reads the sub-keys by
  subscription: with field facets only, the read of \<open>facet_ranges\<close> raises KeyError.
\<close>

theorem augment_solr_response_missing_subkey_counterexample:
  "augment_solr_response
     (JObj [(''responseHeader'', JObj [(''status'', JInt 0)]),
            (''facet_counts'', JObj [(''facet_fields'', JObj [(''cat'', JList [JStr ''a'', JInt 1])])])])
     (JObj [(''properties'', JObj [(''isEnabled'', JBool False), (''limit'', JInt 10),
                                   (''mincount'', JInt 1), (''sort'', JStr ''count'')]),
            (''ranges'', JList []), (''fields'', JList []), (''dates'', JList [])])
   = (JObj [(''responseHeader'', JObj [(''status'', JInt 0)]),
            (''facet_counts'', JObj [(''facet_fields'', JObj [(''cat'', JList [JStr ''a'', JInt 1])])]),
            (''normalized_facets'', JList [])],
      Raised (KeyError (JStr ''facet_ranges'')))"
  by (simp add: augment_solr_response_def collect_def category_def field_record_def
      get_facet_field_label_def get_facet_field_uuid_def scan_facets_def place_def)



end
